theory Spec2Isabelle
  imports Main "HOL-Library.AList"
begin

section \<open>Python values, exceptions and strings\<close>

text \<open>
  The sources are Python 2 (\<^verbatim>\<open>except ImportError, e\<close>): a \<^verbatim>\<open>str\<close> is a byte string, so
  \<^typ>\<open>string\<close> models it exactly. Values that travel through option defaults, parsed
  options and command results are the scalars below; \<open>VType\<close> stands for a type object such
  as \<^verbatim>\<open>float\<close>, named by its \<^verbatim>\<open>__name__\<close>.
\<close>

datatype pyval =
    VNone
  | VBool bool
  | VInt int
  | VStr string
  | VType string

text \<open>
  Every \<^verbatim>\<open>raise\<close> of the sources, and \<^verbatim>\<open>sys.exit\<close>, is a value of this type.
  \<open>IncompetentDeveloperError\<close> is what the specification calls a configuration error.
\<close>

datatype exn =
    IncompetentDeveloperError string
  | SystemExit int
  | KeyError string
  | AttributeError string
  | IOError string
  | NotImplementedError string
  | OtherError string

type_synonym dict = "(string \<times> pyval) list"

abbreviation NL :: string where
  "NL \<equiv> [CHR 0x0A]"

fun digits :: "nat \<Rightarrow> string" where
  "digits n = (if n < 10 then [''0123456789'' ! n]
               else digits (n div 10) @ [''0123456789'' ! (n mod 10)])"

declare digits.simps [simp del]

text \<open>\<^verbatim>\<open>'%s' % v\<close>: the \<^verbatim>\<open>str\<close> of a value.\<close>

fun py_str :: "pyval \<Rightarrow> string" where
  "py_str VNone = ''None''"
| "py_str (VBool b) = (if b then ''True'' else ''False'')"
| "py_str (VInt i) = (if i < 0 then ''-'' @ digits (nat (- i)) else digits (nat i))"
| "py_str (VStr s) = s"
| "py_str (VType n) = ''<type '' @ [CHR 0x27] @ n @ [CHR 0x27] @ ''>''"

text \<open>\<^verbatim>\<open>sep.join(xs)\<close>.\<close>

fun join :: "string \<Rightarrow> string list \<Rightarrow> string" where
  "join sep [] = []"
| "join sep [x] = x"
| "join sep (x # y # ys) = x @ sep @ join sep (y # ys)"

text \<open>\<^verbatim>\<open>s.strip(chars)\<close> removes leading and trailing characters that occur in \<open>chars\<close>.\<close>

definition strip_chars :: "string \<Rightarrow> string \<Rightarrow> string" where
  "strip_chars cs s =
     rev (dropWhile (\<lambda>c. c \<in> set cs) (rev (dropWhile (\<lambda>c. c \<in> set cs) s)))"

text \<open>
  \<^verbatim>\<open>s.strip()\<close> of a byte string removes the six ASCII whitespace characters
  (tab, line feed, vertical tab, form feed, carriage return, space).
\<close>

definition whitespace :: string where
  "whitespace = [CHR 0x09, CHR 0x0A, CHR 0x0B, CHR 0x0C, CHR 0x0D, CHR 0x20]"

definition strip :: "string \<Rightarrow> string" where
  "strip s = strip_chars whitespace s"

text \<open>\<^verbatim>\<open>s.upper()\<close> of a byte string in the C locale: ASCII letters only.\<close>

definition upper_char :: "char \<Rightarrow> char" where
  "upper_char c =
     (case map_of (zip ''abcdefghijklmnopqrstuvwxyz'' ''ABCDEFGHIJKLMNOPQRSTUVWXYZ'') c of
        Some u \<Rightarrow> u
      | None \<Rightarrow> c)"

definition upper :: "string \<Rightarrow> string" where
  "upper s = map upper_char s"

text \<open>\<^verbatim>\<open>s.replace(a, b)\<close> for single characters \<open>a\<close> and \<open>b\<close>.\<close>

definition replace_char :: "char \<Rightarrow> char \<Rightarrow> string \<Rightarrow> string" where
  "replace_char a b s = map (\<lambda>c. if c = a then b else c) s"

text \<open>\<^verbatim>\<open>s.endswith(suf)\<close>.\<close>

definition endswith :: "string \<Rightarrow> string \<Rightarrow> bool" where
  "endswith s suf = (length suf \<le> length s \<and> drop (length s - length suf) s = suf)"


section \<open>pyqi/core/interface.py\<close>

subsection \<open>InterfaceOption\<close>

text \<open>
  The fields of a \<^verbatim>\<open>Parameter\<close> that \<^verbatim>\<open>InterfaceOption.__init__\<close> reads. The class itself
  lives in \<^verbatim>\<open>pyqi.core.command\<close>; only its attributes matter here.
\<close>

record Parameter =
  Name :: string
  Description :: string
  Required :: bool
  Default :: pyval
  DefaultDescription :: pyval

record InterfaceOption =
  Parameter :: "Parameter option"
  Name :: string
  Help :: string
  Required :: bool
  Default :: pyval
  DefaultDescription :: pyval
  InputType :: pyval
  InputAction :: pyval
  InputHandler :: "(pyval \<Rightarrow> pyval) option"
  ShortName :: "string option"

text \<open>
  The keyword arguments of \<^verbatim>\<open>InterfaceOption.__init__\<close>. A \<^verbatim>\<open>None\<close> for \<open>Name\<close> or \<open>Help\<close>
  is \<^term>\<open>None\<close>; for the value-typed arguments it is \<^term>\<open>VNone\<close>. The declared defaults
  are \<^verbatim>\<open>None\<close> everywhere, \<^verbatim>\<open>Required=False\<close> and \<^verbatim>\<open>convert_to_dashed_name=True\<close>.
\<close>

record InterfaceOption_kwargs =
  kw_Parameter :: "Parameter option"
  kw_InputType :: pyval
  kw_InputAction :: pyval
  kw_InputHandler :: "(pyval \<Rightarrow> pyval) option"
  kw_ShortName :: "string option"
  kw_Name :: "string option"
  kw_Required :: bool
  kw_Help :: "string option"
  kw_Default :: pyval
  kw_DefaultDescription :: pyval
  kw_convert_to_dashed_name :: bool

text \<open>
  \<^verbatim>\<open>InterfaceOption.__init__\<close> in two parts. The hook \<^verbatim>\<open>_validate_option\<close> raises
  \<^verbatim>\<open>NotImplementedError\<close> in the base class and is overridden by each front-end, so it is
  an argument: it returns the exception it raises, if any.

  The second part first: what follows the \<^verbatim>\<open>if self.Parameter is None: ... else: ...\<close>
  statement, given the five attributes that either branch has set.
\<close>

definition InterfaceOption_finish ::
  "(InterfaceOption \<Rightarrow> exn option) \<Rightarrow> InterfaceOption_kwargs
   \<Rightarrow> string \<Rightarrow> string \<Rightarrow> bool \<Rightarrow> pyval \<Rightarrow> pyval \<Rightarrow> exn + InterfaceOption" where
  "InterfaceOption_finish validate_option kw name help required dflt default_description =
     (let name' = (if kw_convert_to_dashed_name kw
                   then replace_char (CHR ''_'') (CHR ''-'') name else name)
      in if required \<and> dflt \<noteq> VNone
         then Inl (IncompetentDeveloperError
                (''Found required option '' @ [CHR 0x27] @ name' @ [CHR 0x27]
                 @ '' with default value '' @ [CHR 0x27] @ py_str dflt @ [CHR 0x27]
                 @ ''. Required options cannot have default values.''))
         else
           (let self = \<lparr>Parameter = kw_Parameter kw, Name = name', Help = help,
                        Required = required, Default = dflt,
                        DefaultDescription = default_description,
                        InputType = kw_InputType kw, InputAction = kw_InputAction kw,
                        InputHandler = kw_InputHandler kw, ShortName = kw_ShortName kw\<rparr>
            in case validate_option self of
                 Some e \<Rightarrow> Inl e
               | None \<Rightarrow> Inr self))"

text \<open>The first part: the two branches on \<^verbatim>\<open>self.Parameter is None\<close>.\<close>

definition InterfaceOption_init ::
  "(InterfaceOption \<Rightarrow> exn option) \<Rightarrow> InterfaceOption_kwargs \<Rightarrow> exn + InterfaceOption" where
  "InterfaceOption_init validate_option kw =
     (case kw_Parameter kw of
        None \<Rightarrow>
          (case kw_Name kw of
             None \<Rightarrow> Inl (IncompetentDeveloperError
               ''Must specify a Name for the InterfaceOption since it doesn't have a Parameter.'')
           | Some name \<Rightarrow>
               (case kw_Help kw of
                  None \<Rightarrow> Inl (IncompetentDeveloperError
                    ''Must specify Help for the InterfaceOption since it doesn't have a Parameter.'')
                | Some help \<Rightarrow>
                    InterfaceOption_finish validate_option kw name help
                      (kw_Required kw) (kw_Default kw) (kw_DefaultDescription kw)))
      | Some p \<Rightarrow>
          InterfaceOption_finish validate_option kw
            (case kw_Name kw of None \<Rightarrow> Parameter.Name p | Some name \<Rightarrow> name)
            (case kw_Help kw of None \<Rightarrow> Parameter.Description p | Some help \<Rightarrow> help)
            (if \<not> Parameter.Required p \<and> kw_Required kw then True else Parameter.Required p)
            (if kw_Default kw = VNone then Parameter.Default p else kw_Default kw)
            (if kw_DefaultDescription kw = VNone then Parameter.DefaultDescription p
             else kw_DefaultDescription kw))"

definition getParameterName :: "InterfaceOption \<Rightarrow> string option" where
  "getParameterName self =
     (case Parameter self of None \<Rightarrow> None | Some p \<Rightarrow> Some (Parameter.Name p))"


subsection \<open>Interface\<close>

text \<open>
  What a concrete subclass of \<^verbatim>\<open>Interface\<close> supplies: the class attribute
  \<^verbatim>\<open>CommandConstructor\<close> and the hooks \<^verbatim>\<open>_get_usage_examples\<close>, \<^verbatim>\<open>_get_inputs\<close>,
  \<^verbatim>\<open>_get_outputs\<close>. A hook of the base class raises \<^verbatim>\<open>NotImplementedError\<close>, so each hook
  is a result. A command instance is a callable from keyword arguments to a result mapping.
\<close>

record ('u, 'o) Interface_class =
  CommandConstructor :: "(dict \<Rightarrow> exn + (dict \<Rightarrow> exn + dict)) option"
  get_usage_examples :: "exn + 'u list"
  get_inputs :: "exn + InterfaceOption list"
  get_outputs :: "exn + 'o list"

definition Interface_base :: "('u, 'o) Interface_class" where
  "Interface_base =
     \<lparr>CommandConstructor = None,
      get_usage_examples = Inl (NotImplementedError ''Must define _get_usage_examples''),
      get_inputs = Inl (NotImplementedError ''Must define _get_inputs''),
      get_outputs = Inl (NotImplementedError ''Must define _get_outputs'')\<rparr>"

definition validate_usage_examples :: "'u list \<Rightarrow> exn option" where
  "validate_usage_examples usage_examples = None"

definition validate_inputs :: "InterfaceOption list \<Rightarrow> exn option" where
  "validate_inputs inputs =
     (let param_names = map (\<lambda>input. the (getParameterName input))
                            (filter (\<lambda>input. getParameterName input \<noteq> None) inputs)
      in if length param_names \<noteq> card (set param_names)
         then Some (IncompetentDeveloperError
                ''Found more than one InterfaceOption mapping to the same Parameter.'')
         else None)"

definition validate_outputs :: "'o list \<Rightarrow> exn option" where
  "validate_outputs outputs = None"

text \<open>
  \<^verbatim>\<open>Interface.__init__\<close>. The only attribute it sets is \<^verbatim>\<open>CmdInstance\<close>; an exception
  leaves the caller without an object, which is the \<open>Inl\<close> result.
\<close>

definition Interface_init ::
  "('u, 'o) Interface_class \<Rightarrow> dict \<Rightarrow> exn + (dict \<Rightarrow> exn + dict)" where
  "Interface_init cls kwargs =
     (case CommandConstructor cls of
        None \<Rightarrow> Inl (IncompetentDeveloperError
                  ''Cannot construct an Interface without a CommandConstructor.'')
      | Some constructor \<Rightarrow>
          (case constructor kwargs of
             Inl e \<Rightarrow> Inl e
           | Inr CmdInstance \<Rightarrow>
               (case get_usage_examples cls of
                  Inl e \<Rightarrow> Inl e
                | Inr usage_examples \<Rightarrow>
                    (case validate_usage_examples usage_examples of
                       Some e \<Rightarrow> Inl e
                     | None \<Rightarrow>
                         (case get_inputs cls of
                            Inl e \<Rightarrow> Inl e
                          | Inr inputs \<Rightarrow>
                              (case validate_inputs inputs of
                                 Some e \<Rightarrow> Inl e
                               | None \<Rightarrow>
                                   (case get_outputs cls of
                                      Inl e \<Rightarrow> Inl e
                                    | Inr outputs \<Rightarrow>
                                        (case validate_outputs outputs of
                                           Some e \<Rightarrow> Inl e
                                         | None \<Rightarrow> Inr CmdInstance))))))))"


section \<open>qcli/interface/cli.py\<close>

subsection \<open>The file-creating output function\<close>

text \<open>
  The file system as far as \<^verbatim>\<open>new_filepath\<close> sees it: a path names a file with its contents,
  a directory, or nothing. \<^verbatim>\<open>os.path.exists\<close> is true of files and directories alike.
\<close>

datatype node = File string | Dir

type_synonym filesystem = "string \<rightharpoonup> node"

definition os_path_exists :: "filesystem \<Rightarrow> string \<Rightarrow> bool" where
  "os_path_exists fs path = (fs path \<noteq> None)"

text \<open>
  Whether \<^verbatim>\<open>open(path, 'w')\<close> succeeds is decided by the operating system (the parent
  directory may be missing or not writable), so that decision is an argument: for a file
  system and a path it gives the exception that \<^verbatim>\<open>open\<close> raises, or \<^term>\<open>None\<close> when the
  file can be opened. An \<^verbatim>\<open>open\<close> that raises leaves the file system as it is; one that
  succeeds creates the file, or truncates it.
\<close>

type_synonym opener = "filesystem \<Rightarrow> string \<Rightarrow> exn option"

definition open_w :: "opener \<Rightarrow> filesystem \<Rightarrow> string \<Rightarrow> exn + filesystem" where
  "open_w refusal fs path =
     (case refusal fs path of
        Some e \<Rightarrow> Inl e
      | None \<Rightarrow> Inr (fs(path \<mapsto> File [])))"

definition file_write :: "filesystem \<Rightarrow> string \<Rightarrow> string \<Rightarrow> filesystem" where
  "file_write fs path data =
     (case fs path of Some (File contents) \<Rightarrow> fs(path \<mapsto> File (contents @ data)) | _ \<Rightarrow> fs)"

text \<open>
  \<^verbatim>\<open>new_filepath(data, path)\<close>: the file system afterwards and the exception raised, if any.
  An exception of \<^verbatim>\<open>open\<close> is not caught, so it is the exception of the call.
\<close>

definition new_filepath ::
  "opener \<Rightarrow> string \<Rightarrow> string \<Rightarrow> filesystem \<Rightarrow> filesystem \<times> exn option" where
  "new_filepath refusal data path fs =
     (if os_path_exists fs path
      then (fs, Some (IOError (''Output path '' @ path @ '' already exists.'')))
      else (case open_w refusal fs path of
              Inl e \<Rightarrow> (fs, Some e)
            | Inr fs1 \<Rightarrow>
                (let fs2 = file_write fs1 path data
                 in (fs2, None))))"


subsection \<open>Options, usage examples, output handlers, conversion rules\<close>

text \<open>
  What happens during one call of an interface, in order: text printed by the parser, the
  parser being run on the arguments, the command being invoked, an output function being
  called. \<open>ParserError msg\<close> is \<^verbatim>\<open>parser.error(msg)\<close>, which prints the usage and \<open>msg\<close> on
  standard error before it exits with status 2.
\<close>

datatype event =
    PrintUsage string
  | ParseArgs "string list"
  | ParserError string
  | CommandCalled dict
  | HandlerCalled string pyval "pyval option"

text \<open>
  An output function is called as \<^verbatim>\<open>Function(k, results[k])\<close> or as
  \<^verbatim>\<open>Function(k, results[k], opt_value)\<close>; the third argument is \<^term>\<open>None\<close> for the
  two-argument call. It returns the exception it raises, if any.
\<close>

record OutputHandler =
  OptionName :: "string option"
  Function :: "string \<Rightarrow> pyval \<Rightarrow> pyval option \<Rightarrow> exn option"

text \<open>A \<^verbatim>\<open>CLOption\<close> with the attributes it inherits from \<^verbatim>\<open>Parameter\<close>.\<close>

record CLOption =
  Type :: pyval
  Help :: string
  Name :: string
  LongName :: string
  CLType :: pyval
  CLAction :: pyval
  Required :: bool
  Default :: pyval
  DefaultDescription :: pyval
  ShortName :: "string option"
  ResultName :: "string option"

definition CLOption_str :: "CLOption \<Rightarrow> string" where
  "CLOption_str self =
     (case CLOption.ShortName self of
        None \<Rightarrow> ''--'' @ CLOption.LongName self
      | Some short \<Rightarrow> ''-'' @ short @ ''/--'' @ CLOption.LongName self)"

text \<open>
  The option object of the parser library, as \<^verbatim>\<open>make_option\<close> builds it from the option
  strings and the keywords \<^verbatim>\<open>type\<close>, \<^verbatim>\<open>help\<close>, \<^verbatim>\<open>default\<close> (\<^term>\<open>None\<close> when the keyword is
  not passed). The library names the attribute that receives the parsed value after the
  first long option string, with \<^verbatim>\<open>-\<close> replaced by \<^verbatim>\<open>_\<close>.
\<close>

record OptparseOption =
  opt_strings :: "string list"
  opt_type :: pyval
  opt_help :: string
  opt_default :: "pyval option"
  dest :: string

definition make_option :: "string list \<Rightarrow> pyval \<Rightarrow> string \<Rightarrow> pyval option \<Rightarrow> OptparseOption" where
  "make_option opts type help dflt =
     \<lparr>opt_strings = opts, opt_type = type, opt_help = help, opt_default = dflt,
      dest = (case filter (\<lambda>s. take 2 s = ''--'') opts of
                long # _ \<Rightarrow> replace_char (CHR ''-'') (CHR ''_'') (drop 2 long)
              | [] \<Rightarrow> (case opts of short # _ \<Rightarrow> drop 1 short | [] \<Rightarrow> []))\<rparr>"

definition getOptparseOption :: "CLOption \<Rightarrow> OptparseOption" where
  "getOptparseOption self =
     (if CLOption.Required self
      then (let help_text = (if \<not> endswith (strip (CLOption.Help self)) ''[REQUIRED]''
                             then CLOption.Help self @ '' [REQUIRED]''
                             else CLOption.Help self)
            in case CLOption.ShortName self of
                 None \<Rightarrow> make_option [''--'' @ CLOption.LongName self] (CLOption.CLType self) help_text None
               | Some short \<Rightarrow>
                   make_option [''-'' @ short, ''--'' @ CLOption.LongName self]
                     (CLOption.CLType self) help_text None)
      else (let help_text = CLOption.Help self @ '' [default: ''
                            @ py_str (CLOption.DefaultDescription self) @ '']''
            in case CLOption.ShortName self of
                 None \<Rightarrow> make_option [''--'' @ CLOption.LongName self] (CLOption.CLType self) help_text
                          (Some (CLOption.Default self))
               | Some short \<Rightarrow>
                   make_option [''-'' @ short, ''--'' @ CLOption.LongName self]
                     (CLOption.CLType self) help_text (Some (CLOption.Default self))))"

record UsageExample =
  ShortDesc :: string
  LongDesc :: string
  Ex :: string

definition CLTypes :: "pyval set" where
  "CLTypes = {VStr ''float'', VStr ''int'', VStr ''string'', VStr ''existing_filepath'',
              VType ''float'', VType ''int'', VType ''str'', VNone,
              VStr ''new_filepath'', VStr ''new_dirpath'', VStr ''existing_dirpath''}"

definition CLActions :: "pyval set" where
  "CLActions = {VStr ''store'', VStr ''store_true'', VStr ''store_false'', VStr ''append''}"

record ParameterConversion =
  ShortName :: "string option"
  LongName :: string
  CLType :: pyval
  CLAction :: pyval
  InHandler :: "(pyval \<Rightarrow> pyval) option"

text \<open>
  \<^verbatim>\<open>ParameterConversion.__init__(LongName, CLType, CLAction=None, InHandler=None,
  ShortName=None)\<close>.
\<close>

definition ParameterConversion_init ::
  "string \<Rightarrow> pyval \<Rightarrow> pyval \<Rightarrow> (pyval \<Rightarrow> pyval) option \<Rightarrow> string option
   \<Rightarrow> exn + ParameterConversion" where
  "ParameterConversion_init LongName' CLType' CLAction' InHandler' ShortName' =
     (if CLType' \<notin> CLTypes
      then Inl (IncompetentDeveloperError (''Invalid CLType specified: '' @ py_str CLType'))
      else if CLAction' \<noteq> VNone \<and> CLAction' \<notin> CLActions
      then Inl (IncompetentDeveloperError (''Invalid CLAction specified: '' @ py_str CLAction'))
      else Inr \<lparr>ShortName = ShortName', LongName = LongName', CLType = CLType',
                CLAction = CLAction', InHandler = InHandler'\<rparr>)"


subsection \<open>CLInterface\<close>

text \<open>
  A command instance: the description that the usage text quotes, and the call
  \<^verbatim>\<open>CmdInstance(**cmd_input)\<close> from keyword arguments to a result mapping.
\<close>

record Command =
  LongDescription :: string
  run :: "dict \<Rightarrow> exn + dict"

text \<open>
  An instance of (a subclass of) \<^verbatim>\<open>CLInterface\<close>: the four attributes that \<^verbatim>\<open>__init__\<close>
  sets, the command instance, the class attributes, and the output map that the hook
  \<^verbatim>\<open>_get_output_map\<close> returns (the hook of \<^verbatim>\<open>CLInterface\<close> itself raises
  \<^verbatim>\<open>NotImplementedError\<close>). Dictionaries are association lists in iteration order.
\<close>

record CLInterface =
  BelovedFunctionality :: dict
  UsageExamples :: "UsageExample list"
  ParameterConversionInfo :: "(string \<times> ParameterConversion) list"
  Options :: "CLOption list"
  CmdInstance :: Command
  DisallowPositionalArguments :: bool
  HelpOnNoArguments :: bool
  OptionalInputLine :: string
  RequiredInputLine :: string
  get_output_map :: "exn + (string \<times> OutputHandler) list"

text \<open>The argument of \<^verbatim>\<open>__call__\<close>: a list of strings, or something else, given by its \<^verbatim>\<open>repr\<close>.\<close>

datatype pyinput = InList "string list" | InOther string

text \<open>
  \<^verbatim>\<open>_the_in_validator\<close>: raises unless the input is a list. The model hands the list on,
  since the rest of the call reads it as one.
\<close>

definition the_in_validator :: "pyinput \<Rightarrow> exn + string list" where
  "the_in_validator in' =
     (case in' of
        InList xs \<Rightarrow> Inr xs
      | InOther r \<Rightarrow> Inl (IncompetentDeveloperError
          (''Unsupported input '' @ [CHR 0x27] @ r @ [CHR 0x27] @ ''. Input must be a list.'')))"

text \<open>The body of the loop over the usage examples in \<^verbatim>\<open>_build_usage_lines\<close>.\<close>

definition format_usage_example :: "UsageExample \<Rightarrow> string" where
  "format_usage_example usage_example =
     (let short_description = strip (strip_chars '':'' (ShortDesc usage_example));
          long_description = strip (strip_chars '':'' (LongDesc usage_example));
          example = strip (Ex usage_example)
      in if short_description \<noteq> []
         then short_description @ '': '' @ long_description @ NL @ '' '' @ example
         else long_description @ NL @ '' '' @ example)"

definition build_usage_lines :: "CLInterface \<Rightarrow> CLOption list \<Rightarrow> string" where
  "build_usage_lines self required_options =
     (let line1 = ''usage: %prog [options] '' @
                  ''{'' @ join '' '' (map (\<lambda>rp. CLOption_str rp @ '' '' @ upper (CLOption.Name rp))
                                        required_options) @ ''}'';
          formatted_usage_examples =
            join (NL @ NL) (map format_usage_example (UsageExamples self));
          lines = [line1,
                   [],
                   OptionalInputLine self,
                   RequiredInputLine self,
                   [],
                   LongDescription (CmdInstance self),
                   [],
                   ''Example usage: '',
                   ''Print help message and exit'',
                   '' %prog -h'' @ NL,
                   formatted_usage_examples]
      in join NL lines)"

text \<open>
  The option parser is a library outside these sources, so it is an argument: given the
  usage string, the options of the "REQUIRED options" group, the other options and the
  argument list, it returns what \<^verbatim>\<open>parser.parse_args(in_)\<close> returns, the attributes of
  \<^verbatim>\<open>opts\<close> as a dictionary and the positional arguments, or the exception it ends with
  (\<open>SystemExit\<close> after an error message or after \<^verbatim>\<open>--help\<close>).
\<close>

type_synonym parser =
  "string \<Rightarrow> OptparseOption list \<Rightarrow> OptparseOption list \<Rightarrow> string list
   \<Rightarrow> exn + (dict \<times> string list)"

definition positional_message :: "string \<Rightarrow> string" where
  "positional_message arg0 =
     ''Positional argument detected: '' @ arg0 @ NL @
     '' Be sure all parameters are identified by their option name.'' @ NL @
     '' (e.g.: include the '' @ [CHR 0x27] @ ''-i'' @ [CHR 0x27] @ '' in '' @
     [CHR 0x27] @ ''-i INPUT_DIR'' @ [CHR 0x27] @ '')''"

definition omitted_message :: "string \<Rightarrow> string" where
  "omitted_message required_option_id = ''Required option --'' @ required_option_id @ '' omitted.''"

text \<open>
  The loop that tests that all required options were provided. \<^verbatim>\<open>getattr\<close> raises
  \<^verbatim>\<open>AttributeError\<close> for an attribute that \<open>opts\<close> does not have.
\<close>

fun check_required :: "dict \<Rightarrow> string list \<Rightarrow> (event list \<times> exn) option" where
  "check_required opts [] = None"
| "check_required opts (required_option_id # ids) =
     (case map_of opts required_option_id of
        None \<Rightarrow> Some ([], AttributeError required_option_id)
      | Some v \<Rightarrow>
          if v = VNone
          then Some ([ParserError (omitted_message required_option_id)], SystemExit 2)
          else check_required opts ids)"

text \<open>
  The loop over \<^verbatim>\<open>ParameterConversionInfo.items()\<close> that applies the input handlers to the
  dictionary in place. A subscript with a missing key raises \<^verbatim>\<open>KeyError\<close>; the dictionary
  keeps what was written before.
\<close>

fun apply_in_handlers ::
  "(string \<times> ParameterConversion) list \<Rightarrow> dict \<Rightarrow> dict \<times> exn option" where
  "apply_in_handlers [] bf = (bf, None)"
| "apply_in_handlers ((k, v) # rest) bf =
     (case InHandler v of
        None \<Rightarrow> apply_in_handlers rest bf
      | Some in_handler \<Rightarrow>
          (let long_name = ParameterConversion.LongName v
           in case map_of bf long_name of
                None \<Rightarrow> (bf, Some (KeyError long_name))
              | Some val \<Rightarrow>
                  apply_in_handlers rest (AList.update long_name (in_handler val) bf)))"

text \<open>
  What \<^verbatim>\<open>parser.parse_args(in_)\<close> returns in \<^verbatim>\<open>_input_handler\<close>: the parser has been built
  with the usage text, the required options in their group (when there are any) and the
  optional options.
\<close>

definition parse_args :: "parser \<Rightarrow> CLInterface \<Rightarrow> string list \<Rightarrow> exn + (dict \<times> string list)" where
  "parse_args parser self in' =
     (let required_opts = filter CLOption.Required (Options self);
          optional_opts = filter (\<lambda>opt. \<not> CLOption.Required opt) (Options self);
          usage = build_usage_lines self required_opts
      in parser usage (map getOptparseOption required_opts)
                      (map getOptparseOption optional_opts) in')"

text \<open>
  \<^verbatim>\<open>_input_handler\<close>: the events, the instance afterwards, and the dictionary returned or
  the exception raised. \<^verbatim>\<open>parser.exit(-1)\<close> is \<^verbatim>\<open>sys.exit(-1)\<close>.
\<close>

definition input_handler ::
  "parser \<Rightarrow> CLInterface \<Rightarrow> string list \<Rightarrow> event list \<times> CLInterface \<times> (exn + dict)" where
  "input_handler parser self in' =
     (let required_opts = filter CLOption.Required (Options self);
          usage = build_usage_lines self required_opts
      in if HelpOnNoArguments self \<and> length in' = 0
         then ([PrintUsage usage], self, Inl (SystemExit (- 1)))
         else
           (let required = map getOptparseOption required_opts
            in case parse_args parser self in' of
                 Inl e \<Rightarrow> ([ParseArgs in'], self, Inl e)
               | Inr (opts, args) \<Rightarrow>
                   if DisallowPositionalArguments self \<and> length args \<noteq> 0
                   then ([ParseArgs in', ParserError (positional_message (hd args))], self,
                         Inl (SystemExit 2))
                   else
                     (case check_required opts (map dest required) of
                        Some (evs, e) \<Rightarrow> (ParseArgs in' # evs, self, Inl e)
                      | None \<Rightarrow>
                          (case apply_in_handlers (ParameterConversionInfo self) opts of
                             (bf, Some e) \<Rightarrow>
                               ([ParseArgs in'], self\<lparr>BelovedFunctionality := bf\<rparr>, Inl e)
                           | (bf, None) \<Rightarrow>
                               ([ParseArgs in'], self\<lparr>BelovedFunctionality := bf\<rparr>, Inr bf)))))"

text \<open>
  The loop of \<^verbatim>\<open>_output_handler\<close> over the items of the output map: the calls made and the
  exception that ended the loop, if any.
\<close>

fun dispatch ::
  "dict \<Rightarrow> dict \<Rightarrow> (string \<times> OutputHandler) list \<Rightarrow> event list \<times> exn option" where
  "dispatch bf results [] = ([], None)"
| "dispatch bf results ((k, handler) # rest) =
     (case map_of results k of
        None \<Rightarrow> ([], Some (IncompetentDeveloperError
                  (''Did not find the expected output '' @ [CHR 0x27] @ k @ [CHR 0x27]
                   @ '' in results.'')))
      | Some v \<Rightarrow>
          (case OptionName handler of
             None \<Rightarrow>
               (case Function handler k v None of
                  Some e \<Rightarrow> ([HandlerCalled k v None], Some e)
                | None \<Rightarrow>
                    (let (evs, r) = dispatch bf results rest
                     in (HandlerCalled k v None # evs, r)))
           | Some option_name \<Rightarrow>
               (case map_of bf option_name of
                  None \<Rightarrow> ([], Some (KeyError option_name))
                | Some opt_value \<Rightarrow>
                    (case Function handler k v (Some opt_value) of
                       Some e \<Rightarrow> ([HandlerCalled k v (Some opt_value)], Some e)
                     | None \<Rightarrow>
                         (let (evs, r) = dispatch bf results rest
                          in (HandlerCalled k v (Some opt_value) # evs, r))))))"

definition output_handler :: "CLInterface \<Rightarrow> dict \<Rightarrow> event list \<times> exn option" where
  "output_handler self results =
     (case get_output_map self of
        Inl e \<Rightarrow> ([], Some e)
      | Inr output_map \<Rightarrow> dispatch (BelovedFunctionality self) results output_map)"

text \<open>
  \<^verbatim>\<open>__call__\<close>, as the base class \<^verbatim>\<open>Interface\<close> of \<^verbatim>\<open>pyqi/core/interface.py\<close> defines it over
  the three hooks that \<^verbatim>\<open>CLInterface\<close> implements: validate the input, handle it, call the
  command on the result, hand the command's results to the output handler.
\<close>

definition CLInterface_call ::
  "parser \<Rightarrow> CLInterface \<Rightarrow> pyinput \<Rightarrow> event list \<times> CLInterface \<times> exn option" where
  "CLInterface_call parser self in' =
     (case the_in_validator in' of
        Inl e \<Rightarrow> ([], self, Some e)
      | Inr argv \<Rightarrow>
          (case input_handler parser self argv of
             (evs, self', Inl e) \<Rightarrow> (evs, self', Some e)
           | (evs, self', Inr cmd_input) \<Rightarrow>
               (case run (CmdInstance self') cmd_input of
                  Inl e \<Rightarrow> (evs @ [CommandCalled cmd_input], self', Some e)
                | Inr results \<Rightarrow>
                    (let (evs', r) = output_handler self' results
                     in (evs @ [CommandCalled cmd_input] @ evs', self', r)))))"


section \<open>Example configurations\<close>

text \<open>
  The declared defaults of the keyword arguments of \<^verbatim>\<open>InterfaceOption.__init__\<close>, and the
  pieces of a small command used to run the definitions: a required parameter
  \<open>input_path\<close>, an optional parameter \<open>output_path\<close> without a default, and a front-end
  hook \<^verbatim>\<open>_validate_option\<close> that accepts every option.
\<close>

definition InterfaceOption_defaults :: InterfaceOption_kwargs where
  "InterfaceOption_defaults =
     \<lparr>kw_Parameter = None, kw_InputType = VNone, kw_InputAction = VNone,
      kw_InputHandler = None, kw_ShortName = None, kw_Name = None, kw_Required = False,
      kw_Help = None, kw_Default = VNone, kw_DefaultDescription = VNone,
      kw_convert_to_dashed_name = True\<rparr>"

definition accept_option :: "InterfaceOption \<Rightarrow> exn option" where
  "accept_option opt = None"

definition input_path_parameter :: Parameter where
  "input_path_parameter =
     \<lparr>Parameter.Name = ''input_path'', Parameter.Description = ''the file to read'',
      Parameter.Required = True, Parameter.Default = VNone,
      Parameter.DefaultDescription = VNone\<rparr>"

definition output_path_parameter :: Parameter where
  "output_path_parameter =
     \<lparr>Parameter.Name = ''output_path'', Parameter.Description = ''the file to write'',
      Parameter.Required = False, Parameter.Default = VNone,
      Parameter.DefaultDescription = VStr ''standard output''\<rparr>"

definition input_path_option :: "string option \<Rightarrow> InterfaceOption" where
  "input_path_option short =
     \<lparr>InterfaceOption.Parameter = Some input_path_parameter,
      InterfaceOption.Name = ''input-path'', InterfaceOption.Help = ''the file to read'',
      InterfaceOption.Required = True, InterfaceOption.Default = VNone,
      InterfaceOption.DefaultDescription = VNone, InterfaceOption.InputType = VNone,
      InterfaceOption.InputAction = VNone, InterfaceOption.InputHandler = None,
      InterfaceOption.ShortName = short\<rparr>"

definition duplicate_binding_class :: "(unit, unit) Interface_class" where
  "duplicate_binding_class =
     \<lparr>CommandConstructor = Some (\<lambda>kwargs. Inr (\<lambda>cmd_input. Inr [])),
      get_usage_examples = Inr [()],
      get_inputs = Inr [input_path_option (Some ''i''), input_path_option None],
      get_outputs = Inr []\<rparr>"


definition output_path_option :: InterfaceOption where
  "output_path_option =
     \<lparr>InterfaceOption.Parameter = Some output_path_parameter,
      InterfaceOption.Name = ''output-path'', InterfaceOption.Help = ''where to write'',
      InterfaceOption.Required = True, InterfaceOption.Default = VNone,
      InterfaceOption.DefaultDescription = VStr ''standard output'',
      InterfaceOption.InputType = VNone, InterfaceOption.InputAction = VNone,
      InterfaceOption.InputHandler = None, InterfaceOption.ShortName = None\<rparr>"

definition one_file :: filesystem where
  "one_file = [''out.txt'' \<mapsto> File ''old'']"

text \<open>
  \<^verbatim>\<open>os.path.dirname\<close> of a POSIX path: everything up to the last slash, without trailing
  slashes unless it consists of slashes only.
\<close>

definition dirname :: "string \<Rightarrow> string" where
  "dirname p =
     (let head = rev (dropWhile (\<lambda>c. c \<noteq> CHR ''/'') (rev p))
      in if filter (\<lambda>c. c \<noteq> CHR ''/'') head \<noteq> []
         then rev (dropWhile (\<lambda>c. c = CHR ''/'') (rev head))
         else head)"

text \<open>
  The rule by which \<^verbatim>\<open>open(path, 'w')\<close> fails in the examples: a path with a directory part
  can be opened only if that directory exists, and a directory cannot be opened for
  writing. A path without a directory part is in the current directory, which is there.
\<close>

definition directory_opener :: opener where
  "directory_opener fs path =
     (if dirname path \<noteq> [] \<and> fs (dirname path) = None
      then Some (IOError (''[Errno 2] No such file or directory: '' @ [CHR 0x27] @ path
                          @ [CHR 0x27]))
      else if dirname path \<noteq> [] \<and> fs (dirname path) \<noteq> Some Dir
      then Some (IOError (''[Errno 20] Not a directory: '' @ [CHR 0x27] @ path @ [CHR 0x27]))
      else if fs path = Some Dir
      then Some (IOError (''[Errno 21] Is a directory: '' @ [CHR 0x27] @ path @ [CHR 0x27]))
      else None)"

text \<open>
  A command-line interface for a command with two required options, \<^verbatim>\<open>-i/--input-path\<close>
  and \<^verbatim>\<open>--output-path\<close>, and the optional \<^verbatim>\<open>-v/--verbose\<close>, with the class attributes as
  \<^verbatim>\<open>CLInterface\<close> declares them and \<^verbatim>\<open>BelovedFunctionality\<close> as \<^verbatim>\<open>__init__\<close> leaves it, empty.
  The command returns two results; each has an output function that returns normally.
\<close>

definition input_path_cl :: CLOption where
  "input_path_cl =
     \<lparr>CLOption.Type = VType ''str'', CLOption.Help = ''the file to read'',
      CLOption.Name = ''input_path'', CLOption.LongName = ''input-path'',
      CLOption.CLType = VStr ''existing_filepath'', CLOption.CLAction = VStr ''store'',
      CLOption.Required = True, CLOption.Default = VNone,
      CLOption.DefaultDescription = VNone, CLOption.ShortName = Some ''i'',
      CLOption.ResultName = None\<rparr>"

definition output_path_cl :: CLOption where
  "output_path_cl =
     \<lparr>CLOption.Type = VType ''str'', CLOption.Help = ''the file to write'',
      CLOption.Name = ''output_path'', CLOption.LongName = ''output-path'',
      CLOption.CLType = VStr ''new_filepath'', CLOption.CLAction = VStr ''store'',
      CLOption.Required = True, CLOption.Default = VNone,
      CLOption.DefaultDescription = VNone, CLOption.ShortName = None,
      CLOption.ResultName = None\<rparr>"

definition verbose_cl :: CLOption where
  "verbose_cl =
     \<lparr>CLOption.Type = VType ''bool'', CLOption.Help = ''Print information during execution'',
      CLOption.Name = ''verbose'', CLOption.LongName = ''verbose'',
      CLOption.CLType = VNone, CLOption.CLAction = VStr ''store_true'',
      CLOption.Required = False, CLOption.Default = VBool False,
      CLOption.DefaultDescription = VStr ''False'', CLOption.ShortName = Some ''v'',
      CLOption.ResultName = None\<rparr>"

definition quiet_handler :: "string option \<Rightarrow> OutputHandler" where
  "quiet_handler option_name = \<lparr>OptionName = option_name, Function = (\<lambda>k v opt_value. None)\<rparr>"

definition example_interface :: CLInterface where
  "example_interface =
     \<lparr>BelovedFunctionality = [],
      UsageExamples = [\<lparr>ShortDesc = ''Count'', LongDesc = ''Count the lines of x.txt'',
                        Ex = ''%prog -i x.txt --output-path y.txt''\<rparr>],
      ParameterConversionInfo =
        [(''verbose'', \<lparr>ParameterConversion.ShortName = Some ''v'',
                        ParameterConversion.LongName = ''verbose'',
                        ParameterConversion.CLType = VNone,
                        ParameterConversion.CLAction = VStr ''store_true'',
                        InHandler = None\<rparr>)],
      Options = [input_path_cl, output_path_cl, verbose_cl],
      CmdInstance = \<lparr>LongDescription = ''Count the lines of a file.'',
                     run = (\<lambda>kwargs. Inr [(''line_count'', VInt 3), (''log'', VStr ''done'')])\<rparr>,
      DisallowPositionalArguments = True,
      HelpOnNoArguments = True,
      OptionalInputLine = ''[] indicates optional input (order unimportant)'',
      RequiredInputLine = ''{} indicates required input (order unimportant)'',
      get_output_map = Inr [(''line_count'', quiet_handler (Some ''output_path'')),
                            (''log'', quiet_handler None)]\<rparr>"

text \<open>
  What the option parser returns for the three options above on the argument lists used
  below: every option has its attribute, named after the long option with underscores; an
  option that is not on the command line has its default, \<^verbatim>\<open>None\<close> for the required ones;
  a token that belongs to no option is positional. Other argument lists are not needed, and
  the table ends with the parser's own error exit.
\<close>

definition example_parser :: parser where
  "example_parser usage required others argv =
     (if argv = [''-i'', ''x.txt'', ''--output-path'', ''y.txt'']
      then Inr ([(''input_path'', VStr ''x.txt''), (''output_path'', VStr ''y.txt''),
                 (''verbose'', VBool False)], [])
      else if argv = [''--output-path'', ''y.txt'']
      then Inr ([(''input_path'', VNone), (''output_path'', VStr ''y.txt''),
                 (''verbose'', VBool False)], [])
      else if argv = [''--verbose'', ''1'']
      then Inr ([(''input_path'', VNone), (''output_path'', VNone),
                 (''verbose'', VStr ''1'')], [])
      else if argv = [''stray'']
      then Inr ([(''input_path'', VNone), (''output_path'', VNone),
                 (''verbose'', VBool False)], [''stray''])
      else Inl (SystemExit 2))"

text \<open>The same interface with a single usage example that has no short description.\<close>

definition untitled_example :: UsageExample where
  "untitled_example =
     \<lparr>ShortDesc = [], LongDesc = ''Count the lines of x.txt'', Ex = ''%prog -i x.txt''\<rparr>"

definition untitled_interface :: CLInterface where
  "untitled_interface = example_interface\<lparr>UsageExamples := [untitled_example]\<rparr>"

section \<open>Construction of options\<close>

lemma InterfaceOption_finish_conflict:
  "required \<Longrightarrow> dflt \<noteq> VNone \<Longrightarrow>
   \<exists>msg. InterfaceOption_finish validate_option kw name hlp required dflt dd
          = Inl (IncompetentDeveloperError msg)"
  by (simp add: InterfaceOption_finish_def Let_def)

lemma InterfaceOption_finish_Inr:
  assumes "InterfaceOption_finish validate_option kw name hlp required dflt dd = Inr opt"
  shows "InterfaceOption.Required opt = required \<and> InterfaceOption.Default opt = dflt
         \<and> InterfaceOption.Help opt = hlp \<and> InterfaceOption.DefaultDescription opt = dd
         \<and> \<not> (required \<and> dflt \<noteq> VNone)"
proof (cases "required \<and> dflt \<noteq> VNone")
  case True
  with assms show ?thesis by (simp add: InterfaceOption_finish_def Let_def)
next
  case False
  with assms show ?thesis
    by (auto simp add: InterfaceOption_finish_def Let_def split: option.splits)
qed

text \<open>
  C2. Constructing an option fails with a configuration error whenever the option would be
  required and carry a default other than \<^verbatim>\<open>None\<close>: for a standalone option these are the
  \<open>Required\<close> and \<open>Default\<close> arguments, for an option derived from a parameter they are the
  merged values. Hence no option that construction returns is both required and defaulted.
\<close>

theorem required_option_never_defaulted:
  "(kw_Parameter kw = None \<and> kw_Required kw \<and> kw_Default kw \<noteq> VNone
      \<longrightarrow> (\<exists>msg. InterfaceOption_init validate_option kw = Inl (IncompetentDeveloperError msg)))
   \<and> (kw_Parameter kw = Some p \<and> (Parameter.Required p \<or> kw_Required kw)
        \<and> (if kw_Default kw = VNone then Parameter.Default p else kw_Default kw) \<noteq> VNone
      \<longrightarrow> (\<exists>msg. InterfaceOption_init validate_option kw = Inl (IncompetentDeveloperError msg)))
   \<and> (InterfaceOption_init validate_option kw = Inr opt
      \<longrightarrow> \<not> (InterfaceOption.Required opt \<and> InterfaceOption.Default opt \<noteq> VNone))"
proof (intro conjI impI)
  assume "kw_Parameter kw = None \<and> kw_Required kw \<and> kw_Default kw \<noteq> VNone"
  then show "\<exists>msg. InterfaceOption_init validate_option kw = Inl (IncompetentDeveloperError msg)"
    using InterfaceOption_finish_conflict [of "kw_Required kw" "kw_Default kw"]
    by (simp add: InterfaceOption_init_def split: option.splits)
next
  assume a: "kw_Parameter kw = Some p \<and> (Parameter.Required p \<or> kw_Required kw)
        \<and> (if kw_Default kw = VNone then Parameter.Default p else kw_Default kw) \<noteq> VNone"
  then have r: "(if \<not> Parameter.Required p \<and> kw_Required kw then True else Parameter.Required p)"
    by auto
  from a have d: "(if kw_Default kw = VNone then Parameter.Default p else kw_Default kw) \<noteq> VNone"
    by simp
  from a InterfaceOption_finish_conflict [OF r d]
  show "\<exists>msg. InterfaceOption_init validate_option kw = Inl (IncompetentDeveloperError msg)"
    by (simp add: InterfaceOption_init_def)
next
  assume ok: "InterfaceOption_init validate_option kw = Inr opt"
  then obtain name hlp required dflt dd where
    "InterfaceOption_finish validate_option kw name hlp required dflt dd = Inr opt"
    by (auto simp add: InterfaceOption_init_def split: option.splits)
  from InterfaceOption_finish_Inr [OF this]
  show "\<not> (InterfaceOption.Required opt \<and> InterfaceOption.Default opt \<noteq> VNone)"
    by simp
qed

theorem required_option_never_defaulted_witness:
  "(\<exists>msg. InterfaceOption_init accept_option
       (InterfaceOption_defaults\<lparr>kw_Name := Some ''out_fp'', kw_Help := Some ''the output'',
                                 kw_Required := True, kw_Default := VStr ''x.txt''\<rparr>)
     = Inl (IncompetentDeveloperError msg))
   \<and> (\<exists>msg. InterfaceOption_init accept_option
       (InterfaceOption_defaults\<lparr>kw_Parameter := Some input_path_parameter,
                                 kw_Default := VStr ''x.txt''\<rparr>)
     = Inl (IncompetentDeveloperError msg))
   \<and> InterfaceOption_init accept_option
       (InterfaceOption_defaults\<lparr>kw_Parameter := Some input_path_parameter,
                                 kw_ShortName := Some ''i''\<rparr>)
     = Inr (input_path_option (Some ''i''))
   \<and> \<not> (InterfaceOption.Required (input_path_option (Some ''i''))
         \<and> InterfaceOption.Default (input_path_option (Some ''i'')) \<noteq> VNone)"
proof -
  have ok: "InterfaceOption_init accept_option
       (InterfaceOption_defaults\<lparr>kw_Parameter := Some input_path_parameter,
                                 kw_ShortName := Some ''i''\<rparr>)
     = Inr (input_path_option (Some ''i''))"
    by (simp add: InterfaceOption_init_def InterfaceOption_finish_def
        InterfaceOption_defaults_def accept_option_def input_path_parameter_def
        input_path_option_def replace_char_def)
  show ?thesis
    using ok
      required_option_never_defaulted [of
        "InterfaceOption_defaults\<lparr>kw_Name := Some ''out_fp'', kw_Help := Some ''the output'',
                                 kw_Required := True, kw_Default := VStr ''x.txt''\<rparr>"
        accept_option]
      required_option_never_defaulted [of
        "InterfaceOption_defaults\<lparr>kw_Parameter := Some input_path_parameter,
                                 kw_Default := VStr ''x.txt''\<rparr>"
        accept_option input_path_parameter]
      required_option_never_defaulted [of
        "InterfaceOption_defaults\<lparr>kw_Parameter := Some input_path_parameter,
                                 kw_ShortName := Some ''i''\<rparr>"
        accept_option _ "input_path_option (Some ''i'')"]
    by (simp add: InterfaceOption_defaults_def input_path_parameter_def)
qed

text \<open>
  C3. For an option built from a parameter: a required parameter gives a required option
  whatever the \<open>Required\<close> argument says; an optional parameter with \<open>Required=True\<close> gives
  a required option; an optional parameter without it gives an optional option. \<open>Help\<close>,
  \<open>Default\<close> and \<open>DefaultDescription\<close> are the parameter's unless the argument is given
  (is not \<^verbatim>\<open>None\<close>).
\<close>

theorem requiredness_merge_asymmetric:
  "kw_Parameter kw = Some p \<Longrightarrow> InterfaceOption_init validate_option kw = Inr opt \<Longrightarrow>
   (Parameter.Required p \<longrightarrow> InterfaceOption.Required opt)
   \<and> (\<not> Parameter.Required p \<and> kw_Required kw \<longrightarrow> InterfaceOption.Required opt)
   \<and> (\<not> Parameter.Required p \<and> \<not> kw_Required kw \<longrightarrow> \<not> InterfaceOption.Required opt)
   \<and> InterfaceOption.Help opt
        = (case kw_Help kw of None \<Rightarrow> Parameter.Description p | Some hlp \<Rightarrow> hlp)
   \<and> InterfaceOption.Default opt
        = (if kw_Default kw = VNone then Parameter.Default p else kw_Default kw)
   \<and> InterfaceOption.DefaultDescription opt
        = (if kw_DefaultDescription kw = VNone then Parameter.DefaultDescription p
           else kw_DefaultDescription kw)"
proof -
  assume p: "kw_Parameter kw = Some p" and ok: "InterfaceOption_init validate_option kw = Inr opt"
  from ok p have "InterfaceOption_finish validate_option kw
            (case kw_Name kw of None \<Rightarrow> Parameter.Name p | Some name \<Rightarrow> name)
            (case kw_Help kw of None \<Rightarrow> Parameter.Description p | Some hlp \<Rightarrow> hlp)
            (if \<not> Parameter.Required p \<and> kw_Required kw then True else Parameter.Required p)
            (if kw_Default kw = VNone then Parameter.Default p else kw_Default kw)
            (if kw_DefaultDescription kw = VNone then Parameter.DefaultDescription p
             else kw_DefaultDescription kw) = Inr opt"
    by (simp add: InterfaceOption_init_def)
  from InterfaceOption_finish_Inr [OF this] show ?thesis
    by (simp split: if_splits)
qed

theorem requiredness_merge_asymmetric_witness:
  "InterfaceOption_init accept_option
       (InterfaceOption_defaults\<lparr>kw_Parameter := Some output_path_parameter,
                                 kw_Required := True, kw_Help := Some ''where to write''\<rparr>)
     = Inr output_path_option
   \<and> \<not> Parameter.Required output_path_parameter
   \<and> InterfaceOption.Required output_path_option
   \<and> InterfaceOption.Help output_path_option = ''where to write''
   \<and> InterfaceOption.Default output_path_option = Parameter.Default output_path_parameter
   \<and> InterfaceOption.DefaultDescription output_path_option = VStr ''standard output''
   \<and> InterfaceOption_init accept_option
       (InterfaceOption_defaults\<lparr>kw_Parameter := Some input_path_parameter\<rparr>)
     = Inr (input_path_option None)
   \<and> InterfaceOption.Required (input_path_option None)
   \<and> InterfaceOption.Help (input_path_option None) = ''the file to read''"
proof -
  have ok: "InterfaceOption_init accept_option
       (InterfaceOption_defaults\<lparr>kw_Parameter := Some output_path_parameter,
                                 kw_Required := True, kw_Help := Some ''where to write''\<rparr>)
     = Inr output_path_option"
    by (simp add: InterfaceOption_init_def InterfaceOption_finish_def
        InterfaceOption_defaults_def accept_option_def output_path_parameter_def
        output_path_option_def replace_char_def)
  have ok': "InterfaceOption_init accept_option
       (InterfaceOption_defaults\<lparr>kw_Parameter := Some input_path_parameter\<rparr>)
     = Inr (input_path_option None)"
    by (simp add: InterfaceOption_init_def InterfaceOption_finish_def
        InterfaceOption_defaults_def accept_option_def input_path_parameter_def
        input_path_option_def replace_char_def)
  have p: "kw_Parameter (InterfaceOption_defaults\<lparr>kw_Parameter := Some output_path_parameter,
                     kw_Required := True, kw_Help := Some ''where to write''\<rparr>)
           = Some output_path_parameter"
    by simp
  have p': "kw_Parameter (InterfaceOption_defaults\<lparr>kw_Parameter := Some input_path_parameter\<rparr>)
           = Some input_path_parameter"
    by simp
  show ?thesis
    using ok ok' requiredness_merge_asymmetric [OF p ok]
      requiredness_merge_asymmetric [OF p' ok']
    by (simp add: output_path_parameter_def input_path_parameter_def InterfaceOption_defaults_def)
qed


section \<open>Construction of an interface\<close>

lemma validate_inputs_iff:
  "validate_inputs inputs = None \<longleftrightarrow>
   distinct (map (\<lambda>input. the (getParameterName input))
                 (filter (\<lambda>input. getParameterName input \<noteq> None) inputs))"
  unfolding validate_inputs_def Let_def
  using card_distinct distinct_card by (metis option.distinct(1))

lemma validate_inputs_error:
  "validate_inputs inputs = Some e \<Longrightarrow>
   e = IncompetentDeveloperError
         ''Found more than one InterfaceOption mapping to the same Parameter.''"
  by (simp add: validate_inputs_def Let_def split: if_splits)

lemma validate_inputs_duplicate:
  assumes "getParameterName a = Some n" "getParameterName b = Some n"
  shows "validate_inputs (xs @ a # ys @ b # zs) = Some (IncompetentDeveloperError
           ''Found more than one InterfaceOption mapping to the same Parameter.'')"
proof -
  have "\<not> distinct (map (\<lambda>input. the (getParameterName input))
                 (filter (\<lambda>input. getParameterName input \<noteq> None) (xs @ a # ys @ b # zs)))"
    using assms by simp
  then have "validate_inputs (xs @ a # ys @ b # zs) \<noteq> None"
    by (simp only: validate_inputs_iff not_False_eq_True)
  then obtain e where "validate_inputs (xs @ a # ys @ b # zs) = Some e" by blast
  with validate_inputs_error [OF this] show ?thesis by simp
qed

text \<open>
  C4. If the inputs of an interface contain two options \<open>a\<close> and \<open>b\<close> that are derived from
  parameters of the same name \<open>n\<close>, construction never returns an interface: it raises. Once
  the command has been constructed and the usage examples collected, the exception is the
  configuration error for the duplicate binding.
\<close>

theorem duplicate_binding_rejected:
  assumes "get_inputs cls = Inr (xs @ a # ys @ b # zs)"
    and "getParameterName a = Some n" and "getParameterName b = Some n"
  shows "(\<exists>e. Interface_init cls kwargs = Inl e)
       \<and> (\<forall>constructor cmd usage_examples.
            CommandConstructor cls = Some constructor \<and> constructor kwargs = Inr cmd
            \<and> get_usage_examples cls = Inr usage_examples
            \<longrightarrow> Interface_init cls kwargs = Inl (IncompetentDeveloperError
                  ''Found more than one InterfaceOption mapping to the same Parameter.''))"
proof -
  note dup = validate_inputs_duplicate [OF assms(2,3), of xs ys zs]
  have 1: "\<exists>e. Interface_init cls kwargs = Inl e"
    using assms(1) dup
    by (simp add: Interface_init_def validate_usage_examples_def split: option.splits sum.splits)
  have 2: "Interface_init cls kwargs = Inl (IncompetentDeveloperError
                  ''Found more than one InterfaceOption mapping to the same Parameter.'')"
    if "CommandConstructor cls = Some constructor" "constructor kwargs = Inr cmd"
       "get_usage_examples cls = Inr usage_examples" for constructor cmd usage_examples
    using that assms(1) dup
    by (simp add: Interface_init_def validate_usage_examples_def)
  from 1 2 show ?thesis by blast
qed

theorem duplicate_binding_rejected_witness:
  "get_inputs duplicate_binding_class
     = Inr ([] @ input_path_option (Some ''i'') # [] @ input_path_option None # [])
   \<and> getParameterName (input_path_option (Some ''i'')) = Some ''input_path''
   \<and> getParameterName (input_path_option None) = Some ''input_path''
   \<and> Interface_init duplicate_binding_class []
       = Inl (IncompetentDeveloperError
               ''Found more than one InterfaceOption mapping to the same Parameter.'')"
proof -
  have i: "get_inputs duplicate_binding_class
     = Inr ([] @ input_path_option (Some ''i'') # [] @ input_path_option None # [])"
    by (simp add: duplicate_binding_class_def)
  have a: "getParameterName (input_path_option (Some ''i'')) = Some ''input_path''"
    by (simp add: getParameterName_def input_path_option_def input_path_parameter_def)
  have b: "getParameterName (input_path_option None) = Some ''input_path''"
    by (simp add: getParameterName_def input_path_option_def input_path_parameter_def)
  show ?thesis
    using i a b duplicate_binding_rejected [OF i a b, of "[]"]
    by (simp add: duplicate_binding_class_def)
qed


section \<open>Conversion rules\<close>

text \<open>
  C10, as stated, fails: a rule whose \<open>CLAction\<close> is \<^verbatim>\<open>None\<close>, which is the declared default
  and is not one of the four actions, is constructed.
\<close>

theorem conversion_without_action_counterexample:
  "VNone \<notin> {VStr ''store'', VStr ''store_true'', VStr ''store_false'', VStr ''append''}
   \<and> ParameterConversion_init ''input'' (VStr ''string'') VNone None None
       = Inr \<lparr>ShortName = None, LongName = ''input'', CLType = VStr ''string'',
              CLAction = VNone, InHandler = None\<rparr>"
  by (simp add: ParameterConversion_init_def CLTypes_def CLActions_def)

text \<open>
  C10, amended. Construction succeeds exactly when \<open>CLType\<close> is one of the seven type
  names, \<^verbatim>\<open>None\<close>, or one of the type objects \<^verbatim>\<open>float\<close>, \<^verbatim>\<open>int\<close>, \<^verbatim>\<open>str\<close>, and \<open>CLAction\<close> is
  \<^verbatim>\<open>None\<close> or one of the four actions. Otherwise it fails with a configuration error, for
  the type if that is wrong, else for the action.
\<close>

theorem conversion_rule_validation:
  "(t \<in> {VStr ''float'', VStr ''int'', VStr ''string'', VStr ''existing_filepath'',
          VStr ''new_filepath'', VStr ''existing_dirpath'', VStr ''new_dirpath'', VNone,
          VType ''float'', VType ''int'', VType ''str''}
    \<and> (a = VNone \<or> a \<in> {VStr ''store'', VStr ''store_true'', VStr ''store_false'', VStr ''append''})
    \<longrightarrow> ParameterConversion_init ln t a h s
        = Inr \<lparr>ShortName = s, LongName = ln, CLType = t, CLAction = a, InHandler = h\<rparr>)
   \<and> (t \<notin> {VStr ''float'', VStr ''int'', VStr ''string'', VStr ''existing_filepath'',
          VStr ''new_filepath'', VStr ''existing_dirpath'', VStr ''new_dirpath'', VNone,
          VType ''float'', VType ''int'', VType ''str''}
    \<longrightarrow> ParameterConversion_init ln t a h s
        = Inl (IncompetentDeveloperError (''Invalid CLType specified: '' @ py_str t)))
   \<and> (t \<in> {VStr ''float'', VStr ''int'', VStr ''string'', VStr ''existing_filepath'',
          VStr ''new_filepath'', VStr ''existing_dirpath'', VStr ''new_dirpath'', VNone,
          VType ''float'', VType ''int'', VType ''str''}
      \<and> a \<noteq> VNone
      \<and> a \<notin> {VStr ''store'', VStr ''store_true'', VStr ''store_false'', VStr ''append''}
    \<longrightarrow> ParameterConversion_init ln t a h s
        = Inl (IncompetentDeveloperError (''Invalid CLAction specified: '' @ py_str a)))"
  unfolding ParameterConversion_init_def CLTypes_def CLActions_def
  by (simp add: insert_commute)

theorem conversion_rule_validation_witness:
  "ParameterConversion_init ''verbose'' VNone (VStr ''store_true'') None (Some ''v'')
     = Inr \<lparr>ShortName = Some ''v'', LongName = ''verbose'', CLType = VNone,
            CLAction = VStr ''store_true'', InHandler = None\<rparr>
   \<and> ParameterConversion_init ''n'' (VStr ''bool'') VNone None None
     = Inl (IncompetentDeveloperError ''Invalid CLType specified: bool'')
   \<and> ParameterConversion_init ''n'' (VStr ''int'') (VStr ''count'') None None
     = Inl (IncompetentDeveloperError ''Invalid CLAction specified: count'')"
  using conversion_rule_validation [of VNone "VStr ''store_true''" "''verbose''" None "Some ''v''"]
        conversion_rule_validation [of "VStr ''bool''" VNone "''n''" None None]
        conversion_rule_validation [of "VStr ''int''" "VStr ''count''" "''n''" None None]
  by simp


section \<open>Writing a new file\<close>

lemma example_dirname:
  "dirname ''nodir/out.txt'' = ''nodir''"
  "dirname ''out.txt'' = []"
  "dirname ''fresh.txt'' = []"
  by (simp_all add: dirname_def)

text \<open>
  C9, as stated, fails in its second half: a path that does not exist need not be one that
  can be opened. In a file system without the directory \<open>nodir\<close>, the path
  \<open>nodir/out.txt\<close> does not exist, \<^verbatim>\<open>open\<close> raises \<^verbatim>\<open>IOError\<close>, and no file is created.
\<close>

theorem new_filepath_open_fails_counterexample:
  "\<not> os_path_exists one_file ''nodir/out.txt''
   \<and> new_filepath directory_opener ''new'' ''nodir/out.txt'' one_file
       = (one_file,
          Some (IOError (''[Errno 2] No such file or directory: '' @ [CHR 0x27]
                         @ ''nodir/out.txt'' @ [CHR 0x27])))
   \<and> one_file ''nodir/out.txt'' = None"
  by (simp add: new_filepath_def os_path_exists_def open_w_def directory_opener_def
      example_dirname one_file_def)

text \<open>
  C9, amended. Called with a path that exists, \<^verbatim>\<open>new_filepath\<close> raises \<^verbatim>\<open>IOError\<close> and the
  file system is the one it was called in: nothing was opened or written, and the file at
  the path has its old contents. Called with a path that does not exist, it returns
  normally when \<^verbatim>\<open>open\<close> succeeds, and the file system then has one more file, at that path,
  holding the data; when \<^verbatim>\<open>open\<close> raises, that exception is the outcome and the file system
  is unchanged.
\<close>

theorem new_filepath_never_overwrites:
  "(os_path_exists fs path \<longrightarrow>
      new_filepath refusal data path fs
        = (fs, Some (IOError (''Output path '' @ path @ '' already exists.''))))
   \<and> (\<not> os_path_exists fs path \<and> refusal fs path = None \<longrightarrow>
      fs path = None
      \<and> new_filepath refusal data path fs = (fs(path \<mapsto> File data), None))
   \<and> (\<forall>e. \<not> os_path_exists fs path \<and> refusal fs path = Some e \<longrightarrow>
      new_filepath refusal data path fs = (fs, Some e))"
  by (simp add: new_filepath_def os_path_exists_def open_w_def file_write_def)

theorem new_filepath_never_overwrites_witness:
  "os_path_exists one_file ''out.txt''
   \<and> new_filepath directory_opener ''new'' ''out.txt'' one_file
       = (one_file, Some (IOError ''Output path out.txt already exists.''))
   \<and> \<not> os_path_exists one_file ''fresh.txt''
   \<and> directory_opener one_file ''fresh.txt'' = None
   \<and> new_filepath directory_opener ''new'' ''fresh.txt'' one_file
       = (one_file(''fresh.txt'' \<mapsto> File ''new''), None)
   \<and> \<not> os_path_exists one_file ''nodir/out.txt''
   \<and> directory_opener one_file ''nodir/out.txt''
       = Some (IOError (''[Errno 2] No such file or directory: '' @ [CHR 0x27]
                        @ ''nodir/out.txt'' @ [CHR 0x27]))
   \<and> fst (new_filepath directory_opener ''new'' ''nodir/out.txt'' one_file) = one_file"
proof -
  have e: "os_path_exists one_file ''out.txt''"
    and f: "\<not> os_path_exists one_file ''fresh.txt''"
    and n: "\<not> os_path_exists one_file ''nodir/out.txt''"
    by (simp_all add: os_path_exists_def one_file_def)
  have fo: "directory_opener one_file ''fresh.txt'' = None"
    by (simp add: directory_opener_def example_dirname one_file_def)
  have no: "directory_opener one_file ''nodir/out.txt''
       = Some (IOError (''[Errno 2] No such file or directory: '' @ [CHR 0x27]
                        @ ''nodir/out.txt'' @ [CHR 0x27]))"
    by (simp add: directory_opener_def example_dirname one_file_def)
  show ?thesis
    using e f n fo no
      new_filepath_never_overwrites [of one_file "''out.txt''" directory_opener "''new''"]
      new_filepath_never_overwrites [of one_file "''fresh.txt''" directory_opener "''new''"]
      new_filepath_never_overwrites [of one_file "''nodir/out.txt''" directory_opener "''new''"]
    by simp
qed


section \<open>The invocation pipeline\<close>

subsection \<open>Facts about the example interface\<close>

lemma example_usage:
  "build_usage_lines example_interface (filter CLOption.Required (Options example_interface))
   = ''usage: %prog [options] {-i/--input-path INPUT_PATH --output-path OUTPUT_PATH}'' @ NL @ NL @
     ''[] indicates optional input (order unimportant)'' @ NL @
     ''{} indicates required input (order unimportant)'' @ NL @ NL @
     ''Count the lines of a file.'' @ NL @ NL @
     ''Example usage: '' @ NL @
     ''Print help message and exit'' @ NL @
     '' %prog -h'' @ NL @ NL @
     ''Count: Count the lines of x.txt'' @ NL @
     '' %prog -i x.txt --output-path y.txt''"
  by (simp add: build_usage_lines_def example_interface_def input_path_cl_def output_path_cl_def
      verbose_cl_def CLOption_str_def upper_def upper_char_def format_usage_example_def
      strip_def strip_chars_def whitespace_def)

lemma example_dest:
  "dest (getOptparseOption input_path_cl) = ''input_path''"
  "dest (getOptparseOption output_path_cl) = ''output_path''"
  "dest (getOptparseOption verbose_cl) = ''verbose''"
  by (simp_all add: input_path_cl_def output_path_cl_def verbose_cl_def
      getOptparseOption_def make_option_def replace_char_def Let_def)

lemma example_options:
  "Options example_interface = [input_path_cl, output_path_cl, verbose_cl]"
  "CLOption.Required input_path_cl"
  "CLOption.Required output_path_cl"
  "\<not> CLOption.Required verbose_cl"
  by (simp_all add: example_interface_def input_path_cl_def output_path_cl_def verbose_cl_def)

lemma example_parse:
  "parse_args example_parser example_interface argv = example_parser [] [] [] argv"
  by (simp add: parse_args_def example_parser_def Let_def)


subsection \<open>Help on an empty argument list\<close>

text \<open>
  C5. With \<^verbatim>\<open>HelpOnNoArguments\<close> set, a call with the empty list prints the usage text and
  ends with \<^verbatim>\<open>sys.exit(-1)\<close>. Nothing else happens: the parser is not run, the command is
  not invoked, no output function is called, and the instance is unchanged.
\<close>

theorem help_on_no_arguments:
  "HelpOnNoArguments self \<Longrightarrow>
   CLInterface_call parser self (InList [])
     = ([PrintUsage (build_usage_lines self (filter CLOption.Required (Options self)))],
        self, Some (SystemExit (- 1)))"
  by (simp add: CLInterface_call_def the_in_validator_def input_handler_def)

theorem help_on_no_arguments_witness:
  "HelpOnNoArguments example_interface
   \<and> CLInterface_call example_parser example_interface (InList [])
     = ([PrintUsage
          (''usage: %prog [options] {-i/--input-path INPUT_PATH --output-path OUTPUT_PATH}'' @ NL @ NL @
           ''[] indicates optional input (order unimportant)'' @ NL @
           ''{} indicates required input (order unimportant)'' @ NL @ NL @
           ''Count the lines of a file.'' @ NL @ NL @
           ''Example usage: '' @ NL @
           ''Print help message and exit'' @ NL @
           '' %prog -h'' @ NL @ NL @
           ''Count: Count the lines of x.txt'' @ NL @
           '' %prog -i x.txt --output-path y.txt'')],
        example_interface, Some (SystemExit (- 1)))"
proof -
  have h: "HelpOnNoArguments example_interface"
    by (simp add: example_interface_def)
  from help_on_no_arguments [OF h, of example_parser] h show ?thesis
    by (simp only: example_usage simp_thms)
qed


subsection \<open>Required options\<close>

lemma check_required_omitted:
  "\<forall>i \<in> set ids. map_of opts i \<noteq> None \<Longrightarrow>
   find (\<lambda>i. map_of opts i = Some VNone) ids = Some d \<Longrightarrow>
   check_required opts ids = Some ([ParserError (omitted_message d)], SystemExit 2)"
  by (induction ids) (auto split: if_splits)

lemma check_required_supplied:
  "\<forall>i \<in> set ids. map_of opts i \<noteq> None \<and> map_of opts i \<noteq> Some VNone \<Longrightarrow>
   check_required opts ids = None"
  by (induction ids) auto

lemma find_omitted:
  "i \<in> set ids \<Longrightarrow> P i \<Longrightarrow> \<exists>d. find P ids = Some d"
  by (cases "find P ids") (auto simp: find_None_iff)

lemma input_handler_parsed:
  assumes "parse_args parser self argv = Inr (opts, args)"
    and "\<not> (HelpOnNoArguments self \<and> argv = [])"
  shows "input_handler parser self argv =
     (if DisallowPositionalArguments self \<and> args \<noteq> []
      then ([ParseArgs argv, ParserError (positional_message (hd args))], self,
            Inl (SystemExit 2))
      else
        (case check_required opts (map (\<lambda>opt. dest (getOptparseOption opt))
                                       (filter CLOption.Required (Options self))) of
           Some (evs, e) \<Rightarrow> (ParseArgs argv # evs, self, Inl e)
         | None \<Rightarrow>
             (case apply_in_handlers (ParameterConversionInfo self) opts of
                (bf, Some e) \<Rightarrow> ([ParseArgs argv], self\<lparr>BelovedFunctionality := bf\<rparr>, Inl e)
              | (bf, None) \<Rightarrow> ([ParseArgs argv], self\<lparr>BelovedFunctionality := bf\<rparr>, Inr bf))))"
proof -
  from assms(2) have h: "(HelpOnNoArguments self \<and> length argv = 0) = False" by simp
  show ?thesis
    unfolding input_handler_def Let_def h if_False assms(1) by (simp add: comp_def)
qed

lemma CLInterface_call_abort:
  "input_handler parser self argv = (evs, self', Inl e) \<Longrightarrow>
   CLInterface_call parser self (InList argv) = (evs, self', Some e)"
  by (simp add: CLInterface_call_def the_in_validator_def)

text \<open>
  C1, as stated, fails in two ways. With a stray positional argument the call aborts on the
  positional argument, and the error names the stray token, not the omitted option. With
  two required options omitted the error names the first of them only.
\<close>

theorem required_option_not_named_counterexample:
  "parse_args example_parser example_interface [''stray'']
     = Inr ([(''input_path'', VNone), (''output_path'', VNone), (''verbose'', VBool False)],
            [''stray''])
   \<and> CLInterface_call example_parser example_interface (InList [''stray''])
     = ([ParseArgs [''stray''], ParserError (positional_message ''stray'')],
        example_interface, Some (SystemExit 2))
   \<and> positional_message ''stray'' \<noteq> omitted_message ''input_path''
   \<and> positional_message ''stray'' \<noteq> omitted_message ''output_path''
   \<and> parse_args example_parser example_interface [''--verbose'', ''1'']
     = Inr ([(''input_path'', VNone), (''output_path'', VNone), (''verbose'', VStr ''1'')], [])
   \<and> CLInterface_call example_parser example_interface (InList [''--verbose'', ''1''])
     = ([ParseArgs [''--verbose'', ''1''], ParserError (omitted_message ''input_path'')],
        example_interface, Some (SystemExit 2))
   \<and> omitted_message ''input_path'' \<noteq> omitted_message ''output_path''"
proof -
  have p1: "parse_args example_parser example_interface [''stray'']
     = Inr ([(''input_path'', VNone), (''output_path'', VNone), (''verbose'', VBool False)],
            [''stray''])"
    by (simp add: example_parse example_parser_def)
  have p2: "parse_args example_parser example_interface [''--verbose'', ''1'']
     = Inr ([(''input_path'', VNone), (''output_path'', VNone), (''verbose'', VStr ''1'')], [])"
    by (simp add: example_parse example_parser_def)
  have h: "HelpOnNoArguments example_interface" "DisallowPositionalArguments example_interface"
    by (simp_all add: example_interface_def)
  have c1: "CLInterface_call example_parser example_interface (InList [''stray''])
     = ([ParseArgs [''stray''], ParserError (positional_message ''stray'')],
        example_interface, Some (SystemExit 2))"
    by (rule CLInterface_call_abort) (simp add: input_handler_parsed [OF p1] h)
  have c2: "CLInterface_call example_parser example_interface (InList [''--verbose'', ''1''])
     = ([ParseArgs [''--verbose'', ''1''], ParserError (omitted_message ''input_path'')],
        example_interface, Some (SystemExit 2))"
    by (rule CLInterface_call_abort)
       (simp add: input_handler_parsed [OF p2] h example_options example_dest)
  show ?thesis
    using p1 p2 c1 c2 by (simp add: positional_message_def omitted_message_def)
qed

text \<open>
  C1, amended. Suppose the argument list is parsed (the call is not the help short-circuit
  and the parser returns, with an attribute for each option). If a required option's parsed
  value is \<^verbatim>\<open>None\<close>, the call aborts with \<^verbatim>\<open>parser.error\<close>, exit status 2, the command not
  invoked and the instance unchanged; the error reports the first positional argument when
  positional arguments are disallowed and present, and otherwise names the first required
  option, in option order, whose value is \<^verbatim>\<open>None\<close>. If no required option's value is
  \<^verbatim>\<open>None\<close> and no positional argument stands in the way, the input handler goes on to the
  input transforms.
\<close>

theorem required_option_omitted:
  assumes parsed: "parse_args parser self argv = Inr (opts, args)"
    and nohelp: "\<not> (HelpOnNoArguments self \<and> argv = [])"
    and attrs: "\<forall>opt \<in> set (Options self). map_of opts (dest (getOptparseOption opt)) \<noteq> None"
  shows
    "(\<forall>opt. opt \<in> set (Options self) \<and> CLOption.Required opt
            \<and> map_of opts (dest (getOptparseOption opt)) = Some VNone \<longrightarrow>
        (\<exists>msg. CLInterface_call parser self (InList argv)
                 = ([ParseArgs argv, ParserError msg], self, Some (SystemExit 2))
              \<and> (if DisallowPositionalArguments self \<and> args \<noteq> []
                  then msg = positional_message (hd args)
                  else \<exists>d. find (\<lambda>d. map_of opts d = Some VNone)
                                 (map (\<lambda>opt. dest (getOptparseOption opt))
                                      (filter CLOption.Required (Options self))) = Some d
                           \<and> msg = omitted_message d)))
     \<and> ((\<forall>opt \<in> set (Options self). CLOption.Required opt \<longrightarrow>
             map_of opts (dest (getOptparseOption opt)) \<noteq> Some VNone)
         \<and> \<not> (DisallowPositionalArguments self \<and> args \<noteq> []) \<longrightarrow>
           input_handler parser self argv
             = (case apply_in_handlers (ParameterConversionInfo self) opts of
                  (bf, r) \<Rightarrow> ([ParseArgs argv], self\<lparr>BelovedFunctionality := bf\<rparr>,
                              case r of Some e \<Rightarrow> Inl e | None \<Rightarrow> Inr bf)))"
proof (intro conjI allI impI)
  let ?ids = "map (\<lambda>opt. dest (getOptparseOption opt)) (filter CLOption.Required (Options self))"
  have present: "\<forall>i \<in> set ?ids. map_of opts i \<noteq> None"
    using attrs by auto
  fix opt
  assume opt: "opt \<in> set (Options self) \<and> CLOption.Required opt
            \<and> map_of opts (dest (getOptparseOption opt)) = Some VNone"
  show "\<exists>msg. CLInterface_call parser self (InList argv)
                 = ([ParseArgs argv, ParserError msg], self, Some (SystemExit 2))
              \<and> (if DisallowPositionalArguments self \<and> args \<noteq> []
                  then msg = positional_message (hd args)
                  else \<exists>d. find (\<lambda>d. map_of opts d = Some VNone) ?ids = Some d
                           \<and> msg = omitted_message d)"
  proof (cases "DisallowPositionalArguments self \<and> args \<noteq> []")
    case True
    with input_handler_parsed [OF parsed nohelp] show ?thesis
      by (simp add: CLInterface_call_abort)
  next
    case False
    from opt have "dest (getOptparseOption opt) \<in> set ?ids" by auto
    with opt obtain d where d: "find (\<lambda>d. map_of opts d = Some VNone) ?ids = Some d"
      using find_omitted [of "dest (getOptparseOption opt)" ?ids "\<lambda>d. map_of opts d = Some VNone"]
      by blast
    from False have nopos: "(DisallowPositionalArguments self \<and> args \<noteq> []) = False" by simp
    from check_required_omitted [OF present d] input_handler_parsed [OF parsed nohelp]
    have "input_handler parser self argv
            = ([ParseArgs argv, ParserError (omitted_message d)], self, Inl (SystemExit 2))"
      by (simp add: nopos)
    from CLInterface_call_abort [OF this] d show ?thesis
      by (simp add: nopos)
  qed
next
  let ?ids = "map (\<lambda>opt. dest (getOptparseOption opt)) (filter CLOption.Required (Options self))"
  assume supplied: "(\<forall>opt \<in> set (Options self). CLOption.Required opt \<longrightarrow>
             map_of opts (dest (getOptparseOption opt)) \<noteq> Some VNone)
         \<and> \<not> (DisallowPositionalArguments self \<and> args \<noteq> [])"
  with attrs have "\<forall>i \<in> set ?ids. map_of opts i \<noteq> None \<and> map_of opts i \<noteq> Some VNone"
    by auto
  moreover from supplied
  have nopos: "(DisallowPositionalArguments self \<and> args \<noteq> []) = False" by simp
  ultimately show "input_handler parser self argv
             = (case apply_in_handlers (ParameterConversionInfo self) opts of
                  (bf, r) \<Rightarrow> ([ParseArgs argv], self\<lparr>BelovedFunctionality := bf\<rparr>,
                              case r of Some e \<Rightarrow> Inl e | None \<Rightarrow> Inr bf))"
    using check_required_supplied [of ?ids opts] input_handler_parsed [OF parsed nohelp]
    by (simp add: nopos split: prod.splits option.splits)
qed

theorem required_option_omitted_witness:
  "CLInterface_call example_parser example_interface (InList [''--output-path'', ''y.txt''])
     = ([ParseArgs [''--output-path'', ''y.txt''],
         ParserError ''Required option --input_path omitted.''],
        example_interface, Some (SystemExit 2))
   \<and> input_handler example_parser example_interface [''-i'', ''x.txt'', ''--output-path'', ''y.txt'']
     = ([ParseArgs [''-i'', ''x.txt'', ''--output-path'', ''y.txt'']],
        example_interface\<lparr>BelovedFunctionality :=
          [(''input_path'', VStr ''x.txt''), (''output_path'', VStr ''y.txt''),
           (''verbose'', VBool False)]\<rparr>,
        Inr [(''input_path'', VStr ''x.txt''), (''output_path'', VStr ''y.txt''),
             (''verbose'', VBool False)])"
proof -
  let ?omitted = "[(''input_path'', VNone), (''output_path'', VStr ''y.txt''),
                   (''verbose'', VBool False)]"
  let ?supplied = "[(''input_path'', VStr ''x.txt''), (''output_path'', VStr ''y.txt''),
                    (''verbose'', VBool False)]"
  have p1: "parse_args example_parser example_interface [''--output-path'', ''y.txt'']
              = Inr (?omitted, [])"
    by (simp add: example_parse example_parser_def)
  have p2: "parse_args example_parser example_interface
              [''-i'', ''x.txt'', ''--output-path'', ''y.txt''] = Inr (?supplied, [])"
    by (simp add: example_parse example_parser_def)
  have n1: "\<not> (HelpOnNoArguments example_interface \<and> [''--output-path'', ''y.txt''] = [])"
    by simp
  have n2: "\<not> (HelpOnNoArguments example_interface
                \<and> [''-i'', ''x.txt'', ''--output-path'', ''y.txt''] = [])"
    by simp
  have a1: "\<forall>opt \<in> set (Options example_interface).
              map_of ?omitted (dest (getOptparseOption opt)) \<noteq> None"
    by (simp add: example_options example_dest)
  have a2: "\<forall>opt \<in> set (Options example_interface).
              map_of ?supplied (dest (getOptparseOption opt)) \<noteq> None"
    by (simp add: example_options example_dest)
  have i: "input_path_cl \<in> set (Options example_interface) \<and> CLOption.Required input_path_cl
           \<and> map_of ?omitted (dest (getOptparseOption input_path_cl)) = Some VNone"
    by (simp add: example_options example_dest)
  have s: "\<forall>opt \<in> set (Options example_interface). CLOption.Required opt \<longrightarrow>
             map_of ?supplied (dest (getOptparseOption opt)) \<noteq> Some VNone"
    by (simp add: example_options example_dest)
  have pci: "apply_in_handlers (ParameterConversionInfo example_interface) ?supplied
               = (?supplied, None)"
    by (simp add: example_interface_def)
  from required_option_omitted [OF p1 n1 a1] i
  have "CLInterface_call example_parser example_interface (InList [''--output-path'', ''y.txt''])
     = ([ParseArgs [''--output-path'', ''y.txt''],
         ParserError ''Required option --input_path omitted.''],
        example_interface, Some (SystemExit 2))"
    by (auto simp add: example_options example_dest omitted_message_def)
  moreover from required_option_omitted [OF p2 n2 a2] s pci
  have "input_handler example_parser example_interface [''-i'', ''x.txt'', ''--output-path'', ''y.txt'']
     = ([ParseArgs [''-i'', ''x.txt'', ''--output-path'', ''y.txt'']],
        example_interface\<lparr>BelovedFunctionality := ?supplied\<rparr>, Inr ?supplied)"
    by simp
  ultimately show ?thesis by simp
qed



subsection \<open>Output dispatch\<close>

lemma dispatch_cong:
  "\<forall>(k, handler) \<in> set output_map. map_of results' k = map_of results k \<Longrightarrow>
   dispatch bf results' output_map = dispatch bf results output_map"
  by (induction output_map) (auto split: option.splits)

lemma dispatch_takeWhile:
  assumes "\<forall>(k, handler) \<in> set output_map.
             (\<forall>v opt_value. Function handler k v opt_value = None)
             \<and> (\<forall>n. OptionName handler = Some n \<longrightarrow> map_of bf n \<noteq> None)"
  shows "dispatch bf results output_map =
     (map (\<lambda>(k, handler). HandlerCalled k (the (map_of results k))
              (case OptionName handler of None \<Rightarrow> None | Some n \<Rightarrow> map_of bf n))
          (takeWhile (\<lambda>(k, handler). map_of results k \<noteq> None) output_map),
      case dropWhile (\<lambda>(k, handler). map_of results k \<noteq> None) output_map of
        [] \<Rightarrow> None
      | (k, handler) # rest \<Rightarrow>
          Some (IncompetentDeveloperError
                 (''Did not find the expected output '' @ [CHR 0x27] @ k @ [CHR 0x27]
                  @ '' in results.'')))"
  using assms
proof (induction output_map)
  case Nil
  show ?case by simp
next
  case (Cons kh output_map)
  obtain k handler where kh: "kh = (k, handler)" by (cases kh)
  from Cons.prems kh have quiet: "\<And>v opt_value. Function handler k v opt_value = None"
    and named: "\<And>n. OptionName handler = Some n \<Longrightarrow> map_of bf n \<noteq> None"
    by auto
  from Cons.prems have "\<forall>(k, handler) \<in> set output_map.
             (\<forall>v opt_value. Function handler k v opt_value = None)
             \<and> (\<forall>n. OptionName handler = Some n \<longrightarrow> map_of bf n \<noteq> None)"
    by simp
  from Cons.IH [OF this] have rest: "dispatch bf results output_map =
     (map (\<lambda>(k, handler). HandlerCalled k (the (map_of results k))
              (case OptionName handler of None \<Rightarrow> None | Some n \<Rightarrow> map_of bf n))
          (takeWhile (\<lambda>(k, handler). map_of results k \<noteq> None) output_map),
      case dropWhile (\<lambda>(k, handler). map_of results k \<noteq> None) output_map of
        [] \<Rightarrow> None
      | (k, handler) # rest \<Rightarrow>
          Some (IncompetentDeveloperError
                 (''Did not find the expected output '' @ [CHR 0x27] @ k @ [CHR 0x27]
                  @ '' in results.'')))" .
  show ?case
  proof (cases "map_of results k")
    case None
    then show ?thesis by (simp add: kh)
  next
    case (Some v)
    show ?thesis
    proof (cases "OptionName handler")
      case None
      with Some quiet rest show ?thesis by (simp add: kh)
    next
      case (Some n)
      with named obtain opt_value where "map_of bf n = Some opt_value" by blast
      with Some \<open>map_of results k = Some v\<close> quiet rest show ?thesis by (simp add: kh)
    qed
  qed
qed

lemma example_output_map:
  "get_output_map (example_interface\<lparr>BelovedFunctionality := bf\<rparr>)
     = Inr [(''line_count'', quiet_handler (Some ''output_path'')), (''log'', quiet_handler None)]"
  "get_output_map example_interface
     = Inr [(''line_count'', quiet_handler (Some ''output_path'')), (''log'', quiet_handler None)]"
  by (simp_all add: example_interface_def)

text \<open>
  C7, as stated, fails: the presence test and the call happen in one loop, handler by
  handler. Here the command's results hold \<open>log\<close>, which has a handler, but not
  \<open>line_count\<close>, whose handler comes first: the configuration error is raised at once and
  the handler of the present key \<open>log\<close> is never called.
\<close>

theorem present_key_not_dispatched_counterexample:
  "get_output_map example_interface
     = Inr [(''line_count'', quiet_handler (Some ''output_path'')), (''log'', quiet_handler None)]
   \<and> map_of [(''log'', VStr ''done'')] ''log'' = Some (VStr ''done'')
   \<and> output_handler example_interface [(''log'', VStr ''done'')]
     = ([], Some (IncompetentDeveloperError
                   ''Did not find the expected output 'line_count' in results.''))"
  by (simp add: output_handler_def example_output_map)

text \<open>
  C7, amended. Dispatch depends on the results only at the registered keys, so result keys
  without a handler are ignored. The handlers are processed in the order of the output map.
  As long as the handler's key is present in the results, the handler is called with the
  key and the value, and with the parsed value of its option as a third argument when it
  declares an option name. At the first handler whose key is absent the configuration error
  is raised, and no later handler is called. (The output functions are taken to return
  normally and the declared option names to be among the parsed values.)
\<close>

theorem output_dispatch_in_map_order:
  assumes "get_output_map self = Inr output_map"
  shows "(\<forall>results'. (\<forall>(k, handler) \<in> set output_map. map_of results' k = map_of results k)
            \<longrightarrow> output_handler self results' = output_handler self results)
       \<and> ((\<forall>(k, handler) \<in> set output_map.
              (\<forall>v opt_value. Function handler k v opt_value = None)
              \<and> (\<forall>n. OptionName handler = Some n
                      \<longrightarrow> map_of (BelovedFunctionality self) n \<noteq> None))
           \<longrightarrow> output_handler self results =
             (map (\<lambda>(k, handler). HandlerCalled k (the (map_of results k))
                      (case OptionName handler of
                         None \<Rightarrow> None
                       | Some n \<Rightarrow> map_of (BelovedFunctionality self) n))
                  (takeWhile (\<lambda>(k, handler). map_of results k \<noteq> None) output_map),
              case dropWhile (\<lambda>(k, handler). map_of results k \<noteq> None) output_map of
                [] \<Rightarrow> None
              | (k, handler) # rest \<Rightarrow>
                  Some (IncompetentDeveloperError
                         (''Did not find the expected output '' @ [CHR 0x27] @ k @ [CHR 0x27]
                          @ '' in results.''))))"
proof (intro conjI allI impI)
  fix results'
  assume "\<forall>(k, handler) \<in> set output_map. map_of results' k = map_of results k"
  from dispatch_cong [OF this]
  show "output_handler self results' = output_handler self results"
    by (simp only: output_handler_def assms sum.case)
next
  assume "\<forall>(k, handler) \<in> set output_map.
              (\<forall>v opt_value. Function handler k v opt_value = None)
              \<and> (\<forall>n. OptionName handler = Some n
                      \<longrightarrow> map_of (BelovedFunctionality self) n \<noteq> None)"
  from dispatch_takeWhile [OF this, of results]
  show "output_handler self results =
             (map (\<lambda>(k, handler). HandlerCalled k (the (map_of results k))
                      (case OptionName handler of
                         None \<Rightarrow> None
                       | Some n \<Rightarrow> map_of (BelovedFunctionality self) n))
                  (takeWhile (\<lambda>(k, handler). map_of results k \<noteq> None) output_map),
              case dropWhile (\<lambda>(k, handler). map_of results k \<noteq> None) output_map of
                [] \<Rightarrow> None
              | (k, handler) # rest \<Rightarrow>
                  Some (IncompetentDeveloperError
                         (''Did not find the expected output '' @ [CHR 0x27] @ k @ [CHR 0x27]
                          @ '' in results.'')))"
    by (simp only: output_handler_def assms sum.case)
qed

theorem output_dispatch_in_map_order_witness:
  "output_handler (example_interface\<lparr>BelovedFunctionality := [(''output_path'', VStr ''y.txt'')]\<rparr>)
     [(''extra'', VInt 0), (''log'', VStr ''done''), (''line_count'', VInt 3)]
     = ([HandlerCalled ''line_count'' (VInt 3) (Some (VStr ''y.txt'')),
         HandlerCalled ''log'' (VStr ''done'') None], None)
   \<and> output_handler (example_interface\<lparr>BelovedFunctionality := [(''output_path'', VStr ''y.txt'')]\<rparr>)
     [(''line_count'', VInt 3)]
     = ([HandlerCalled ''line_count'' (VInt 3) (Some (VStr ''y.txt''))],
        Some (IncompetentDeveloperError ''Did not find the expected output 'log' in results.''))
   \<and> output_handler (example_interface\<lparr>BelovedFunctionality := [(''output_path'', VStr ''y.txt'')]\<rparr>)
     [(''line_count'', VInt 3), (''log'', VStr ''done'')]
     = output_handler (example_interface\<lparr>BelovedFunctionality := [(''output_path'', VStr ''y.txt'')]\<rparr>)
     [(''extra'', VInt 0), (''log'', VStr ''done''), (''line_count'', VInt 3)]"
proof -
  let ?self = "example_interface\<lparr>BelovedFunctionality := [(''output_path'', VStr ''y.txt'')]\<rparr>"
  let ?map = "[(''line_count'', quiet_handler (Some ''output_path'')), (''log'', quiet_handler None)]"
  have m: "get_output_map ?self = Inr ?map"
    by (rule example_output_map)
  have q: "\<forall>(k, handler) \<in> set ?map.
              (\<forall>v opt_value. Function handler k v opt_value = None)
              \<and> (\<forall>n. OptionName handler = Some n
                      \<longrightarrow> map_of (BelovedFunctionality ?self) n \<noteq> None)"
    by (simp add: quiet_handler_def)
  have c: "\<forall>(k, handler) \<in> set ?map.
             map_of [(''line_count'', VInt 3), (''log'', VStr ''done'')] k
             = map_of [(''extra'', VInt 0), (''log'', VStr ''done''), (''line_count'', VInt 3)] k"
    by simp
  from output_dispatch_in_map_order [OF m,
         of "[(''extra'', VInt 0), (''log'', VStr ''done''), (''line_count'', VInt 3)]"] q c
  have 1: "output_handler ?self [(''extra'', VInt 0), (''log'', VStr ''done''), (''line_count'', VInt 3)]
     = ([HandlerCalled ''line_count'' (VInt 3) (Some (VStr ''y.txt'')),
         HandlerCalled ''log'' (VStr ''done'') None], None)"
    and 3: "output_handler ?self [(''line_count'', VInt 3), (''log'', VStr ''done'')]
     = output_handler ?self [(''extra'', VInt 0), (''log'', VStr ''done''), (''line_count'', VInt 3)]"
    by (simp_all add: quiet_handler_def)
  from output_dispatch_in_map_order [OF m, of "[(''line_count'', VInt 3)]"] q
  have 2: "output_handler ?self [(''line_count'', VInt 3)]
     = ([HandlerCalled ''line_count'' (VInt 3) (Some (VStr ''y.txt''))],
        Some (IncompetentDeveloperError ''Did not find the expected output 'log' in results.''))"
    by (simp add: quiet_handler_def)
  from 1 2 3 show ?thesis by simp
qed


subsection \<open>The parsed values on the instance\<close>

lemma build_usage_lines_frame:
  "build_usage_lines (self\<lparr>BelovedFunctionality := b\<rparr>) ros = build_usage_lines self ros"
  by (simp add: build_usage_lines_def)

lemma parse_args_frame:
  "parse_args parser (self\<lparr>BelovedFunctionality := b\<rparr>) argv = parse_args parser self argv"
  by (simp add: parse_args_def build_usage_lines_frame)

lemma check_required_events:
  "check_required opts ids = Some (evs, e) \<Longrightarrow> CommandCalled c \<notin> set evs"
  by (induction ids) (auto split: option.splits if_splits)

lemma input_handler_shape:
  "(\<exists>evs e. input_handler parser self argv = (evs, self, Inl e)
        \<and> (\<forall>c. CommandCalled c \<notin> set evs)
        \<and> (\<forall>b. input_handler parser (self\<lparr>BelovedFunctionality := b\<rparr>) argv
                 = (evs, self\<lparr>BelovedFunctionality := b\<rparr>, Inl e)))
   \<or> (\<exists>bf r. input_handler parser self argv
                 = ([ParseArgs argv], self\<lparr>BelovedFunctionality := bf\<rparr>, r)
        \<and> (r = Inr bf \<or> (\<exists>e. r = Inl e))
        \<and> (\<forall>b. input_handler parser (self\<lparr>BelovedFunctionality := b\<rparr>) argv
                 = ([ParseArgs argv], self\<lparr>BelovedFunctionality := bf\<rparr>, r)))"
proof (cases "HelpOnNoArguments self \<and> argv = []")
  case True
  then show ?thesis
    by (simp add: input_handler_def build_usage_lines_frame)
next
  case nohelp: False
  then have nohelp': "\<not> (HelpOnNoArguments (self\<lparr>BelovedFunctionality := b\<rparr>) \<and> argv = [])"
    for b by simp
  show ?thesis
  proof (cases "parse_args parser self argv")
    case (Inl e)
    then have "input_handler parser s argv = ([ParseArgs argv], s, Inl e)"
      if "parse_args parser s argv = parse_args parser self argv"
         "HelpOnNoArguments s = HelpOnNoArguments self" for s
      using that nohelp by (auto simp add: input_handler_def Let_def)
    from this [of self] this [of "self\<lparr>BelovedFunctionality := b\<rparr>" for b]
    show ?thesis by (simp add: parse_args_frame)
  next
    case (Inr parsed)
    obtain opts args where parsed: "parse_args parser self argv = Inr (opts, args)"
      using Inr by (cases parsed) simp
    then have parsed': "parse_args parser (self\<lparr>BelovedFunctionality := b\<rparr>) argv
                          = Inr (opts, args)" for b
      by (simp add: parse_args_frame)
    note ih = input_handler_parsed [OF parsed nohelp]
    note ih' = input_handler_parsed [OF parsed' nohelp']
    show ?thesis
    proof (cases "DisallowPositionalArguments self \<and> args \<noteq> []")
      case True
      then have "input_handler parser self argv
                   = ([ParseArgs argv, ParserError (positional_message (hd args))], self,
                      Inl (SystemExit 2))"
        and "input_handler parser (self\<lparr>BelovedFunctionality := b\<rparr>) argv
                   = ([ParseArgs argv, ParserError (positional_message (hd args))],
                      self\<lparr>BelovedFunctionality := b\<rparr>, Inl (SystemExit 2))" for b
        by (simp_all add: ih ih')
      then show ?thesis by simp
    next
      case False
      then have nopos: "(DisallowPositionalArguments self \<and> args \<noteq> []) = False" by simp
      show ?thesis
      proof (cases "check_required opts (map (\<lambda>opt. dest (getOptparseOption opt))
                      (filter CLOption.Required (Options self)))")
        case (Some a)
        obtain evs e where a: "a = (evs, e)" by (cases a)
        from check_required_events Some a have noc: "\<forall>c. CommandCalled c \<notin> set evs" by blast
        have "input_handler parser self argv = (ParseArgs argv # evs, self, Inl e)"
          and "input_handler parser (self\<lparr>BelovedFunctionality := b\<rparr>) argv
                   = (ParseArgs argv # evs, self\<lparr>BelovedFunctionality := b\<rparr>, Inl e)" for b
          by (simp_all add: ih ih' nopos Some a)
        with noc show ?thesis by simp
      next
        case None
        obtain bf r where h: "apply_in_handlers (ParameterConversionInfo self) opts = (bf, r)"
          by (cases "apply_in_handlers (ParameterConversionInfo self) opts")
        have "input_handler parser self argv
                = ([ParseArgs argv], self\<lparr>BelovedFunctionality := bf\<rparr>,
                   case r of Some e \<Rightarrow> Inl e | None \<Rightarrow> Inr bf)"
          and "input_handler parser (self\<lparr>BelovedFunctionality := b\<rparr>) argv
                = ([ParseArgs argv], self\<lparr>BelovedFunctionality := bf\<rparr>,
                   case r of Some e \<Rightarrow> Inl e | None \<Rightarrow> Inr bf)" for b
          by (simp_all add: ih ih' nopos None h split: option.splits)
        then show ?thesis by (cases r) auto
      qed
    qed
  qed
qed

lemma dispatch_events:
  "CommandCalled c \<notin> set (fst (dispatch bf results output_map))"
  by (induction output_map) (auto split: option.splits prod.splits)

lemma output_handler_events:
  "CommandCalled c \<notin> set (fst (output_handler self results))"
  by (simp add: output_handler_def dispatch_events split: sum.splits)

lemma CLInterface_call_parsed:
  "input_handler parser self argv = (evs, self', Inr cmd_input) \<Longrightarrow>
   CLInterface_call parser self (InList argv)
     = (case run (CmdInstance self') cmd_input of
          Inl e \<Rightarrow> (evs @ [CommandCalled cmd_input], self', Some e)
        | Inr results \<Rightarrow>
            (evs @ [CommandCalled cmd_input] @ fst (output_handler self' results), self',
             snd (output_handler self' results)))"
  by (simp add: CLInterface_call_def the_in_validator_def split: sum.splits prod.splits)

lemma CLInterface_call_frame:
  "case CLInterface_call parser self in' of
     (evs, self', r) \<Rightarrow>
       self' = self\<lparr>BelovedFunctionality := BelovedFunctionality self'\<rparr>
       \<and> (\<forall>cmd_input. CommandCalled cmd_input \<in> set evs
             \<longrightarrow> BelovedFunctionality self' = cmd_input)
       \<and> (\<forall>b. case CLInterface_call parser (self\<lparr>BelovedFunctionality := b\<rparr>) in' of
                 (evs2, self2, r2) \<Rightarrow>
                   evs2 = evs \<and> r2 = r
                   \<and> (self2 = self' \<or> self' = self \<and> self2 = self\<lparr>BelovedFunctionality := b\<rparr>))"
proof (cases in')
  case (InOther repr)
  then show ?thesis
    by (simp add: CLInterface_call_def the_in_validator_def)
next
  case (InList argv)
  from input_handler_shape [of parser self argv]
  consider
    (abort) evs e where "input_handler parser self argv = (evs, self, Inl e)"
      "\<forall>c. CommandCalled c \<notin> set evs"
      "\<forall>b. input_handler parser (self\<lparr>BelovedFunctionality := b\<rparr>) argv
                 = (evs, self\<lparr>BelovedFunctionality := b\<rparr>, Inl e)"
  | (parsed) bf r where "input_handler parser self argv
                  = ([ParseArgs argv], self\<lparr>BelovedFunctionality := bf\<rparr>, r)"
      "r = Inr bf \<or> (\<exists>e. r = Inl e)"
      "\<forall>b. input_handler parser (self\<lparr>BelovedFunctionality := b\<rparr>) argv
                  = ([ParseArgs argv], self\<lparr>BelovedFunctionality := bf\<rparr>, r)"
    by blast
  then show ?thesis
  proof cases
    case abort
    then have "CLInterface_call parser self (InList argv) = (evs, self, Some e)"
      and "CLInterface_call parser (self\<lparr>BelovedFunctionality := b\<rparr>) (InList argv)
             = (evs, self\<lparr>BelovedFunctionality := b\<rparr>, Some e)" for b
      by (simp_all add: CLInterface_call_abort)
    with abort(2) InList show ?thesis by simp
  next
    case parsed
    note ih = parsed(1) and r = parsed(2) and ih' = parsed(3)
    show ?thesis
    proof (cases r)
      case (Inl e)
      with ih ih' have "CLInterface_call parser self (InList argv)
                          = ([ParseArgs argv], self\<lparr>BelovedFunctionality := bf\<rparr>, Some e)"
        and "CLInterface_call parser (self\<lparr>BelovedFunctionality := b\<rparr>) (InList argv)
               = ([ParseArgs argv], self\<lparr>BelovedFunctionality := bf\<rparr>, Some e)" for b
        by (simp_all add: CLInterface_call_abort)
      with InList show ?thesis by simp
    next
      case (Inr d)
      with r have d: "r = Inr bf" by simp
      let ?self' = "self\<lparr>BelovedFunctionality := bf\<rparr>"
      from ih ih' d have same: "CLInterface_call parser (self\<lparr>BelovedFunctionality := b\<rparr>) (InList argv)
               = CLInterface_call parser self (InList argv)" for b
        by (simp add: CLInterface_call_parsed)
      from ih d obtain evs' r' where
        call: "CLInterface_call parser self (InList argv)
               = ([ParseArgs argv] @ [CommandCalled bf] @ evs', ?self', r')"
        and evs': "\<forall>c. CommandCalled c \<notin> set evs'"
        by (cases "run (CmdInstance ?self') bf")
           (simp_all add: CLInterface_call_parsed output_handler_events)
      from evs' have "\<forall>c. CommandCalled c \<in> set ([ParseArgs argv] @ [CommandCalled bf] @ evs')
                       \<longrightarrow> c = bf"
        by auto
      with call same InList show ?thesis by simp
    qed
  qed
qed

lemma example_attributes:
  "ParameterConversionInfo example_interface
     = [(''verbose'', \<lparr>ParameterConversion.ShortName = Some ''v'',
                      ParameterConversion.LongName = ''verbose'',
                      ParameterConversion.CLType = VNone,
                      ParameterConversion.CLAction = VStr ''store_true'',
                      InHandler = None\<rparr>)]"
  "HelpOnNoArguments example_interface"
  "DisallowPositionalArguments example_interface"
  "BelovedFunctionality example_interface = []"
  by (simp_all add: example_interface_def)

lemma example_run:
  "CLInterface_call example_parser (example_interface\<lparr>BelovedFunctionality := b\<rparr>)
     (InList [''-i'', ''x.txt'', ''--output-path'', ''y.txt''])
   = ([ParseArgs [''-i'', ''x.txt'', ''--output-path'', ''y.txt''],
       CommandCalled [(''input_path'', VStr ''x.txt''), (''output_path'', VStr ''y.txt''),
                      (''verbose'', VBool False)],
       HandlerCalled ''line_count'' (VInt 3) (Some (VStr ''y.txt'')),
       HandlerCalled ''log'' (VStr ''done'') None],
      example_interface\<lparr>BelovedFunctionality :=
        [(''input_path'', VStr ''x.txt''), (''output_path'', VStr ''y.txt''),
         (''verbose'', VBool False)]\<rparr>,
      None)"
proof -
  let ?argv = "[''-i'', ''x.txt'', ''--output-path'', ''y.txt'']"
  let ?parsed = "[(''input_path'', VStr ''x.txt''), (''output_path'', VStr ''y.txt''),
                  (''verbose'', VBool False)]"
  let ?self = "example_interface\<lparr>BelovedFunctionality := b\<rparr>"
  have p: "parse_args example_parser ?self ?argv = Inr (?parsed, [])"
    by (simp add: parse_args_frame example_parse example_parser_def)
  have n: "\<not> (HelpOnNoArguments ?self \<and> ?argv = [])" by simp
  have o: "Options ?self = [input_path_cl, output_path_cl, verbose_cl]"
    by (simp add: example_options)
  have pci: "apply_in_handlers (ParameterConversionInfo example_interface) ?parsed
               = (?parsed, None)"
    by (simp add: example_attributes)
  have ih: "input_handler example_parser ?self ?argv
          = ([ParseArgs ?argv], example_interface\<lparr>BelovedFunctionality := ?parsed\<rparr>, Inr ?parsed)"
    by (simp add: input_handler_parsed [OF p n] o example_options example_dest pci)
  have r: "run (CmdInstance example_interface) ?parsed
            = Inr [(''line_count'', VInt 3), (''log'', VStr ''done'')]"
    by (simp add: example_interface_def)
  have oh: "output_handler (example_interface\<lparr>BelovedFunctionality := ?parsed\<rparr>)
              [(''line_count'', VInt 3), (''log'', VStr ''done'')]
            = ([HandlerCalled ''line_count'' (VInt 3) (Some (VStr ''y.txt'')),
                HandlerCalled ''log'' (VStr ''done'') None], None)"
    by (simp add: output_handler_def example_output_map quiet_handler_def)
  show ?thesis
    by (simp add: CLInterface_call_parsed [OF ih] r oh)
qed

lemma example_self: "example_interface\<lparr>BelovedFunctionality := []\<rparr> = example_interface"
  by (simp add: example_interface_def)

text \<open>
  C8, as stated, fails: \<^verbatim>\<open>_input_handler\<close> stores the parsed values in the attribute
  \<^verbatim>\<open>BelovedFunctionality\<close> of the instance, where \<^verbatim>\<open>_output_handler\<close> reads them. The attribute is
  empty after construction, holds the parsed values after a call, and still holds them
  after a second call that stops at the help text.
\<close>

theorem parsed_values_retained_counterexample:
  "BelovedFunctionality example_interface = []
   \<and> BelovedFunctionality (fst (snd (CLInterface_call example_parser example_interface
         (InList [''-i'', ''x.txt'', ''--output-path'', ''y.txt'']))))
     = [(''input_path'', VStr ''x.txt''), (''output_path'', VStr ''y.txt''),
        (''verbose'', VBool False)]
   \<and> BelovedFunctionality (fst (snd (CLInterface_call example_parser
         (fst (snd (CLInterface_call example_parser example_interface
            (InList [''-i'', ''x.txt'', ''--output-path'', ''y.txt''])))) (InList []))))
     = [(''input_path'', VStr ''x.txt''), (''output_path'', VStr ''y.txt''),
        (''verbose'', VBool False)]"
proof -
  have "CLInterface_call example_parser example_interface
         (InList [''-i'', ''x.txt'', ''--output-path'', ''y.txt''])
        = ([ParseArgs [''-i'', ''x.txt'', ''--output-path'', ''y.txt''],
       CommandCalled [(''input_path'', VStr ''x.txt''), (''output_path'', VStr ''y.txt''),
                      (''verbose'', VBool False)],
       HandlerCalled ''line_count'' (VInt 3) (Some (VStr ''y.txt'')),
       HandlerCalled ''log'' (VStr ''done'') None],
      example_interface\<lparr>BelovedFunctionality :=
        [(''input_path'', VStr ''x.txt''), (''output_path'', VStr ''y.txt''),
         (''verbose'', VBool False)]\<rparr>,
      None)"
    using example_run [of "[]"] by (simp only: example_self)
  moreover have "fst (snd (CLInterface_call example_parser (example_interface\<lparr>BelovedFunctionality :=
        [(''input_path'', VStr ''x.txt''), (''output_path'', VStr ''y.txt''),
         (''verbose'', VBool False)]\<rparr>) (InList [])))
      = example_interface\<lparr>BelovedFunctionality :=
        [(''input_path'', VStr ''x.txt''), (''output_path'', VStr ''y.txt''),
         (''verbose'', VBool False)]\<rparr>"
    by (simp add: CLInterface_call_def the_in_validator_def input_handler_def example_attributes)
  ultimately show ?thesis
    by (simp add: example_attributes)
qed

text \<open>
  C8, amended. A call changes no attribute of the instance other than
  \<^verbatim>\<open>BelovedFunctionality\<close>. What a call does and how it ends do not depend on the value that
  \<^verbatim>\<open>BelovedFunctionality\<close> had before: a call that gets past validation replaces it by the
  freshly parsed values, and a call that aborts earlier leaves it as it was. If the command
  was invoked, the attribute afterwards holds exactly the mapping the command was invoked
  with: the parsed values are retained on the instance.
\<close>

theorem parsed_values_retained_on_instance:
  assumes "CLInterface_call parser self in' = (evs, self', r)"
  shows "self' = self\<lparr>BelovedFunctionality := BelovedFunctionality self'\<rparr>
       \<and> (\<forall>cmd_input. CommandCalled cmd_input \<in> set evs
             \<longrightarrow> BelovedFunctionality self' = cmd_input)
       \<and> (\<forall>b. \<exists>self2. CLInterface_call parser (self\<lparr>BelovedFunctionality := b\<rparr>) in'
                         = (evs, self2, r)
                \<and> (self2 = self' \<or> self' = self \<and> self2 = self\<lparr>BelovedFunctionality := b\<rparr>))"
proof (intro conjI)
  note frame = CLInterface_call_frame [where parser = parser and self = self and in' = in']
  from frame assms
  show "self' = self\<lparr>BelovedFunctionality := BelovedFunctionality self'\<rparr>"
    by simp
  from frame assms
  show "\<forall>cmd_input. CommandCalled cmd_input \<in> set evs
             \<longrightarrow> BelovedFunctionality self' = cmd_input"
    by simp
  show "\<forall>b. \<exists>self2. CLInterface_call parser (self\<lparr>BelovedFunctionality := b\<rparr>) in'
                         = (evs, self2, r)
                \<and> (self2 = self' \<or> self' = self \<and> self2 = self\<lparr>BelovedFunctionality := b\<rparr>)"
  proof
    fix b
    obtain evs2 self2 r2 where
      c2: "CLInterface_call parser (self\<lparr>BelovedFunctionality := b\<rparr>) in' = (evs2, self2, r2)"
      by (cases "CLInterface_call parser (self\<lparr>BelovedFunctionality := b\<rparr>) in'")
    from frame assms
    have "case CLInterface_call parser (self\<lparr>BelovedFunctionality := b\<rparr>) in' of
            (evs2, self2, r2) \<Rightarrow>
              evs2 = evs \<and> r2 = r
              \<and> (self2 = self' \<or> self' = self \<and> self2 = self\<lparr>BelovedFunctionality := b\<rparr>)"
      by simp
    with c2 show "\<exists>self2. CLInterface_call parser (self\<lparr>BelovedFunctionality := b\<rparr>) in'
                         = (evs, self2, r)
                \<and> (self2 = self' \<or> self' = self \<and> self2 = self\<lparr>BelovedFunctionality := b\<rparr>)"
      by simp
  qed
qed

theorem parsed_values_retained_on_instance_witness:
  "fst (CLInterface_call example_parser
          (example_interface\<lparr>BelovedFunctionality := [(''stale'', VInt 1)]\<rparr>)
          (InList [''-i'', ''x.txt'', ''--output-path'', ''y.txt'']))
     = fst (CLInterface_call example_parser example_interface
          (InList [''-i'', ''x.txt'', ''--output-path'', ''y.txt'']))
   \<and> CommandCalled [(''input_path'', VStr ''x.txt''), (''output_path'', VStr ''y.txt''),
                     (''verbose'', VBool False)]
       \<in> set (fst (CLInterface_call example_parser example_interface
                 (InList [''-i'', ''x.txt'', ''--output-path'', ''y.txt''])))
   \<and> BelovedFunctionality (fst (snd (CLInterface_call example_parser example_interface
         (InList [''-i'', ''x.txt'', ''--output-path'', ''y.txt'']))))
     = [(''input_path'', VStr ''x.txt''), (''output_path'', VStr ''y.txt''),
        (''verbose'', VBool False)]
   \<and> Options (fst (snd (CLInterface_call example_parser example_interface
         (InList [''-i'', ''x.txt'', ''--output-path'', ''y.txt'']))))
     = Options example_interface"
proof -
  let ?argv = "[''-i'', ''x.txt'', ''--output-path'', ''y.txt'']"
  let ?parsed = "[(''input_path'', VStr ''x.txt''), (''output_path'', VStr ''y.txt''),
                  (''verbose'', VBool False)]"
  let ?self' = "example_interface\<lparr>BelovedFunctionality := ?parsed\<rparr>"
  let ?evs = "[ParseArgs ?argv, CommandCalled ?parsed,
               HandlerCalled ''line_count'' (VInt 3) (Some (VStr ''y.txt'')),
               HandlerCalled ''log'' (VStr ''done'') None]"
  have call: "CLInterface_call example_parser example_interface (InList ?argv)
                = (?evs, ?self', None)"
    using example_run [of "[]"] by (simp only: example_self)
  have called: "CommandCalled ?parsed \<in> set ?evs"
    by simp
  note inst = parsed_values_retained_on_instance [OF call]
  from inst called have 1: "BelovedFunctionality ?self' = ?parsed" by blast
  from inst have "?self' = example_interface\<lparr>BelovedFunctionality := BelovedFunctionality ?self'\<rparr>"
    by blast
  then have 2: "Options ?self' = Options example_interface"
    by simp
  from inst obtain self2 where "CLInterface_call example_parser
          (example_interface\<lparr>BelovedFunctionality := [(''stale'', VInt 1)]\<rparr>) (InList ?argv)
          = (?evs, self2, None)"
    by blast
  then have 3: "fst (CLInterface_call example_parser
          (example_interface\<lparr>BelovedFunctionality := [(''stale'', VInt 1)]\<rparr>) (InList ?argv))
          = ?evs"
    by simp
  from 1 2 3 called show ?thesis by (simp add: call)
qed



section \<open>The usage text\<close>

lemma example_usage_examples:
  "UsageExamples example_interface
     = [\<lparr>ShortDesc = ''Count'', LongDesc = ''Count the lines of x.txt'',
         Ex = ''%prog -i x.txt --output-path y.txt''\<rparr>]"
  "OptionalInputLine example_interface = ''[] indicates optional input (order unimportant)''"
  "RequiredInputLine example_interface = ''{} indicates required input (order unimportant)''"
  "LongDescription (CmdInstance example_interface) = ''Count the lines of a file.''"
  by (simp_all add: example_interface_def)

text \<open>
  C6, as stated, fails: a usage example whose short description is empty (after stripping)
  is not rendered as \<open>ShortDesc: LongDesc\<close>; the text ends with the long description and
  the example alone, with no colon before it.
\<close>

theorem usage_example_without_short_description_counterexample:
  "UsageExamples untitled_interface = [untitled_example]
   \<and> ShortDesc untitled_example = []
   \<and> build_usage_lines untitled_interface [input_path_cl, output_path_cl]
     = ''usage: %prog [options] {-i/--input-path INPUT_PATH --output-path OUTPUT_PATH}'' @ NL @ NL @
       ''[] indicates optional input (order unimportant)'' @ NL @
       ''{} indicates required input (order unimportant)'' @ NL @ NL @
       ''Count the lines of a file.'' @ NL @ NL @
       ''Example usage: '' @ NL @
       ''Print help message and exit'' @ NL @
       '' %prog -h'' @ NL @ NL @
       ''Count the lines of x.txt'' @ NL @
       '' %prog -i x.txt''
   \<and> \<not> endswith (build_usage_lines untitled_interface [input_path_cl, output_path_cl])
         (ShortDesc untitled_example @ '': '' @ LongDesc untitled_example @ NL @ '' ''
          @ Ex untitled_example)"
  by (simp add: build_usage_lines_def untitled_interface_def untitled_example_def
      example_interface_def input_path_cl_def output_path_cl_def
      CLOption_str_def upper_def upper_char_def format_usage_example_def
      strip_def strip_chars_def whitespace_def endswith_def)

text \<open>
  C6, amended. The usage text is a function of the required options, the usage examples,
  the two legend lines and the command's long description, and of nothing else on the
  instance. It is: the line \<open>usage: %prog [options] {...}\<close> with one \<open>flag VALUE\<close> token per
  required option, separated by spaces, where the flag is \<open>-s/--long\<close> or \<open>--long\<close> and the
  value is the upper-cased name; a blank line; the two legend lines; a blank line; the long
  description; a blank line; the fixed lines \<open>Example usage: \<close>, \<open>Print help message and
  exit\<close>, \<open> %prog -h\<close>; a blank line; and the usage examples, separated by blank lines. Each
  example is rendered from its fields after stripping (the two descriptions lose their
  surrounding colons and then their surrounding whitespace, the example invocation its
  surrounding whitespace only): as
  \<open>ShortDesc: LongDesc\<close>, a line feed, one space and the example invocation when the
  stripped short description is not empty, and without \<open>ShortDesc: \<close> when it is empty. For
  an example whose fields stripping leaves unchanged and whose short description is not
  empty, that is \<open>ShortDesc: LongDesc\<close>, a line feed, one space and \<open>Ex\<close> verbatim.
\<close>

theorem usage_text_structure:
  "(UsageExamples self' = UsageExamples self
      \<and> OptionalInputLine self' = OptionalInputLine self
      \<and> RequiredInputLine self' = RequiredInputLine self
      \<and> LongDescription (CmdInstance self') = LongDescription (CmdInstance self)
    \<longrightarrow> build_usage_lines self' required_options = build_usage_lines self required_options)
   \<and> build_usage_lines self required_options
       = ''usage: %prog [options] {''
         @ join '' '' (map (\<lambda>rp. CLOption_str rp @ '' '' @ upper (CLOption.Name rp))
                           required_options)
         @ ''}'' @ NL @ NL
         @ OptionalInputLine self @ NL
         @ RequiredInputLine self @ NL @ NL
         @ LongDescription (CmdInstance self) @ NL @ NL
         @ ''Example usage: '' @ NL
         @ ''Print help message and exit'' @ NL
         @ '' %prog -h'' @ NL @ NL
         @ join (NL @ NL) (map format_usage_example (UsageExamples self))
   \<and> (\<forall>e \<in> set (UsageExamples self).
         format_usage_example e
           = (if strip (strip_chars '':'' (ShortDesc e)) \<noteq> []
              then strip (strip_chars '':'' (ShortDesc e)) @ '': ''
                   @ strip (strip_chars '':'' (LongDesc e)) @ NL @ '' '' @ strip (Ex e)
              else strip (strip_chars '':'' (LongDesc e)) @ NL @ '' '' @ strip (Ex e))
         \<and> (ShortDesc e \<noteq> [] \<and> strip (strip_chars '':'' (ShortDesc e)) = ShortDesc e
              \<and> strip (strip_chars '':'' (LongDesc e)) = LongDesc e \<and> strip (Ex e) = Ex e
            \<longrightarrow> format_usage_example e
                  = ShortDesc e @ '': '' @ LongDesc e @ NL @ '' '' @ Ex e))"
proof (intro conjI impI ballI)
  show "build_usage_lines self required_options
       = ''usage: %prog [options] {''
         @ join '' '' (map (\<lambda>rp. CLOption_str rp @ '' '' @ upper (CLOption.Name rp))
                           required_options)
         @ ''}'' @ NL @ NL
         @ OptionalInputLine self @ NL
         @ RequiredInputLine self @ NL @ NL
         @ LongDescription (CmdInstance self) @ NL @ NL
         @ ''Example usage: '' @ NL
         @ ''Print help message and exit'' @ NL
         @ '' %prog -h'' @ NL @ NL
         @ join (NL @ NL) (map format_usage_example (UsageExamples self))"
    by (simp add: build_usage_lines_def)
next
  assume "UsageExamples self' = UsageExamples self
      \<and> OptionalInputLine self' = OptionalInputLine self
      \<and> RequiredInputLine self' = RequiredInputLine self
      \<and> LongDescription (CmdInstance self') = LongDescription (CmdInstance self)"
  then show "build_usage_lines self' required_options = build_usage_lines self required_options"
    by (simp add: build_usage_lines_def)
next
  fix e :: UsageExample
  show "format_usage_example e
           = (if strip (strip_chars '':'' (ShortDesc e)) \<noteq> []
              then strip (strip_chars '':'' (ShortDesc e)) @ '': ''
                   @ strip (strip_chars '':'' (LongDesc e)) @ NL @ '' '' @ strip (Ex e)
              else strip (strip_chars '':'' (LongDesc e)) @ NL @ '' '' @ strip (Ex e))"
    by (simp add: format_usage_example_def)
next
  fix e :: UsageExample
  assume "ShortDesc e \<noteq> [] \<and> strip (strip_chars '':'' (ShortDesc e)) = ShortDesc e
              \<and> strip (strip_chars '':'' (LongDesc e)) = LongDesc e \<and> strip (Ex e) = Ex e"
  then show "format_usage_example e = ShortDesc e @ '': '' @ LongDesc e @ NL @ '' '' @ Ex e"
    by (simp add: format_usage_example_def)
qed

theorem usage_text_structure_witness:
  "build_usage_lines (example_interface\<lparr>BelovedFunctionality := [(''stale'', VInt 1)]\<rparr>)
       [input_path_cl, output_path_cl]
     = build_usage_lines example_interface [input_path_cl, output_path_cl]
   \<and> build_usage_lines example_interface [input_path_cl, output_path_cl]
     = ''usage: %prog [options] {-i/--input-path INPUT_PATH --output-path OUTPUT_PATH}'' @ NL @ NL @
       ''[] indicates optional input (order unimportant)'' @ NL @
       ''{} indicates required input (order unimportant)'' @ NL @ NL @
       ''Count the lines of a file.'' @ NL @ NL @
       ''Example usage: '' @ NL @
       ''Print help message and exit'' @ NL @
       '' %prog -h'' @ NL @ NL @
       ''Count: Count the lines of x.txt'' @ NL @
       '' %prog -i x.txt --output-path y.txt''
   \<and> format_usage_example \<lparr>ShortDesc = ''Count'', LongDesc = ''Count the lines of x.txt'',
         Ex = ''%prog -i x.txt --output-path y.txt''\<rparr>
     = ''Count: Count the lines of x.txt'' @ NL @ '' %prog -i x.txt --output-path y.txt''"
proof -
  let ?e = "\<lparr>ShortDesc = ''Count'', LongDesc = ''Count the lines of x.txt'',
         Ex = ''%prog -i x.txt --output-path y.txt''\<rparr>"
  note inst = usage_text_structure
    [where self = example_interface
       and self' = "example_interface\<lparr>BelovedFunctionality := [(''stale'', VInt 1)]\<rparr>"
       and required_options = "[input_path_cl, output_path_cl]"]
  have clean: "ShortDesc ?e \<noteq> [] \<and> strip (strip_chars '':'' (ShortDesc ?e)) = ShortDesc ?e
              \<and> strip (strip_chars '':'' (LongDesc ?e)) = LongDesc ?e \<and> strip (Ex ?e) = Ex ?e"
    by (simp add: strip_def strip_chars_def whitespace_def)
  have mem: "?e \<in> set (UsageExamples example_interface)"
    by (simp add: example_usage_examples)
  from inst have "\<forall>e \<in> set (UsageExamples example_interface).
         ShortDesc e \<noteq> [] \<and> strip (strip_chars '':'' (ShortDesc e)) = ShortDesc e
              \<and> strip (strip_chars '':'' (LongDesc e)) = LongDesc e \<and> strip (Ex e) = Ex e
            \<longrightarrow> format_usage_example e
                  = ShortDesc e @ '': '' @ LongDesc e @ NL @ '' '' @ Ex e"
    by blast
  from this mem have "ShortDesc ?e \<noteq> [] \<and> strip (strip_chars '':'' (ShortDesc ?e)) = ShortDesc ?e
              \<and> strip (strip_chars '':'' (LongDesc ?e)) = LongDesc ?e \<and> strip (Ex ?e) = Ex ?e
            \<longrightarrow> format_usage_example ?e
                  = ShortDesc ?e @ '': '' @ LongDesc ?e @ NL @ '' '' @ Ex ?e"
    by (rule bspec)
  from this clean have "format_usage_example ?e
                  = ShortDesc ?e @ '': '' @ LongDesc ?e @ NL @ '' '' @ Ex ?e"
    by (rule mp)
  then have fmt: "format_usage_example ?e
      = ''Count: Count the lines of x.txt'' @ NL @ '' %prog -i x.txt --output-path y.txt''"
    by simp
  from inst have "UsageExamples (example_interface\<lparr>BelovedFunctionality := [(''stale'', VInt 1)]\<rparr>)
        = UsageExamples example_interface
      \<and> OptionalInputLine (example_interface\<lparr>BelovedFunctionality := [(''stale'', VInt 1)]\<rparr>)
        = OptionalInputLine example_interface
      \<and> RequiredInputLine (example_interface\<lparr>BelovedFunctionality := [(''stale'', VInt 1)]\<rparr>)
        = RequiredInputLine example_interface
      \<and> LongDescription (CmdInstance (example_interface\<lparr>BelovedFunctionality := [(''stale'', VInt 1)]\<rparr>))
        = LongDescription (CmdInstance example_interface)
    \<longrightarrow> build_usage_lines (example_interface\<lparr>BelovedFunctionality := [(''stale'', VInt 1)]\<rparr>)
          [input_path_cl, output_path_cl]
        = build_usage_lines example_interface [input_path_cl, output_path_cl]"
    by blast
  then have 1: "build_usage_lines (example_interface\<lparr>BelovedFunctionality := [(''stale'', VInt 1)]\<rparr>)
       [input_path_cl, output_path_cl]
     = build_usage_lines example_interface [input_path_cl, output_path_cl]"
    by simp
  from inst have "build_usage_lines example_interface [input_path_cl, output_path_cl]
       = ''usage: %prog [options] {''
         @ join '' '' (map (\<lambda>rp. CLOption_str rp @ '' '' @ upper (CLOption.Name rp))
                           [input_path_cl, output_path_cl])
         @ ''}'' @ NL @ NL
         @ OptionalInputLine example_interface @ NL
         @ RequiredInputLine example_interface @ NL @ NL
         @ LongDescription (CmdInstance example_interface) @ NL @ NL
         @ ''Example usage: '' @ NL
         @ ''Print help message and exit'' @ NL
         @ '' %prog -h'' @ NL @ NL
         @ join (NL @ NL) (map format_usage_example (UsageExamples example_interface))"
    by blast
  then have 2: "build_usage_lines example_interface [input_path_cl, output_path_cl]
     = ''usage: %prog [options] {-i/--input-path INPUT_PATH --output-path OUTPUT_PATH}'' @ NL @ NL @
       ''[] indicates optional input (order unimportant)'' @ NL @
       ''{} indicates required input (order unimportant)'' @ NL @ NL @
       ''Count the lines of a file.'' @ NL @ NL @
       ''Example usage: '' @ NL @
       ''Print help message and exit'' @ NL @
       '' %prog -h'' @ NL @ NL @
       ''Count: Count the lines of x.txt'' @ NL @
       '' %prog -i x.txt --output-path y.txt''"
    by (simp add: example_usage_examples fmt input_path_cl_def output_path_cl_def
        CLOption_str_def upper_def upper_char_def)
  from 1 2 fmt show ?thesis by simp
qed

end
